theory Spec2Isabelle
  imports Complex_Main
begin

section \<open>Values of the JavaScript run time\<close>

text \<open>
  The service (\<^verbatim>\<open>src/index.ts\<close>) reads strings from Redis, hands them to
  \<^verbatim>\<open>JSON.parse\<close> and answers with \<^verbatim>\<open>c.json(...)\<close>. Every value the handler
  touches is therefore a value \<^verbatim>\<open>JSON.parse\<close> can return: \<^verbatim>\<open>null\<close>, a boolean, a
  number, a string, an array or an object. A number is a finite number (the two zeros
  of IEEE arithmetic are one value here) or, for a literal too large for a double such
  as \<^verbatim>\<open>1e400\<close>, one of the two infinities: \<open>JInfinity negative\<close>. An object is the
  list of its own properties, one entry per name. A string is the list of the bytes of
  its UTF-8 form, in which the ASCII characters, and only they, are bytes below 128.
\<close>

datatype json =
    JNull
  | JBool bool
  | JNum rat
  | JInfinity bool
  | JStr string
  | JArr "json list"
  | JObj "(string \<times> json) list"

text \<open>The exceptions that can be raised inside the handler's \<^verbatim>\<open>try\<close> block: a
  rejected Redis command and a \<^verbatim>\<open>TypeError\<close> (calling something that is not a
  function, reading a property of \<^verbatim>\<open>null\<close>). The \<^verbatim>\<open>SyntaxError\<close> of
  \<^verbatim>\<open>JSON.parse\<close> never leaves the inner \<^verbatim>\<open>try\<close> and is the value \<open>None\<close> of
  the parser.\<close>

datatype exn = CommandFailed | TypeError

text \<open>
  Two functions the handler calls belong to the run time, not to the repository, and
  are parameters of the model: \<^verbatim>\<open>JSON.parse\<close>, \<open>None\<close> where it throws, and
  \<^verbatim>\<open>String.prototype.toLowerCase\<close>, which folds every cased letter of Unicode.
\<close>

record runtime =
  JSON_parse :: "string \<Rightarrow> json option"
  toLowerCase :: "string \<Rightarrow> string"

text \<open>
  What is known of \<^verbatim>\<open>toLowerCase\<close> and used below: it maps no string but the empty
  one to the empty string, and on a string of ASCII characters it replaces the letters
  \<^verbatim>\<open>A\<close> to \<^verbatim>\<open>Z\<close> by \<^verbatim>\<open>a\<close> to \<^verbatim>\<open>z\<close> and leaves the rest.
\<close>

definition ascii :: "string \<Rightarrow> bool" where
  "ascii s = list_all (\<lambda>c. \<not> digit7 c) s"

definition lower_char :: "char \<Rightarrow> char" where
  "lower_char c =
     (case map_of (zip ''ABCDEFGHIJKLMNOPQRSTUVWXYZ'' ''abcdefghijklmnopqrstuvwxyz'') c of
        None \<Rightarrow> c
      | Some l \<Rightarrow> l)"

definition ascii_lower :: "string \<Rightarrow> string" where
  "ascii_lower s = map lower_char s"

definition keeps_nonempty :: "runtime \<Rightarrow> bool" where
  "keeps_nonempty rt = (\<forall>s. (toLowerCase rt s = []) = (s = []))"

definition folds_ascii :: "runtime \<Rightarrow> bool" where
  "folds_ascii rt = (\<forall>s. ascii s \<longrightarrow> toLowerCase rt s = ascii_lower s)"

text \<open>JavaScript's \<^verbatim>\<open>ToBoolean\<close>, as used by \<^verbatim>\<open>if (x)\<close>, \<^verbatim>\<open>!x\<close> and
  \<^verbatim>\<open>x || y\<close>.\<close>

fun truthy :: "json \<Rightarrow> bool" where
  "truthy JNull = False"
| "truthy (JBool b) = b"
| "truthy (JNum n) = (n \<noteq> 0)"
| "truthy (JInfinity negative) = True"
| "truthy (JStr s) = (s \<noteq> [])"
| "truthy (JArr xs) = True"
| "truthy (JObj kvs) = True"

text \<open>Property access \<^verbatim>\<open>v.name\<close> for the two names the handler reads,
  \<^verbatim>\<open>status\<close> and \<^verbatim>\<open>amount\<close>: an own property of an object, \<^verbatim>\<open>undefined\<close>
  (\<open>None\<close>) on every other value, since no prototype defines either name, and a
  \<^verbatim>\<open>TypeError\<close> on \<^verbatim>\<open>null\<close>.\<close>

fun member :: "json \<Rightarrow> string \<Rightarrow> exn + json option" where
  "member JNull name = Inl TypeError"
| "member (JObj kvs) name = Inr (map_of kvs name)"
| "member v name = Inr None"

text \<open>
  \<^verbatim>\<open>JSON.stringify\<close>, which \<^verbatim>\<open>c.json\<close> applies to the body, as the value its
  output denotes: an infinite number is written as \<^verbatim>\<open>null\<close>, inside arrays and
  objects too, and every other value parsed from JSON is written as it is.
\<close>

primrec stringify :: "json \<Rightarrow> json" where
  "stringify JNull = JNull"
| "stringify (JBool b) = JBool b"
| "stringify (JNum n) = JNum n"
| "stringify (JInfinity negative) = JNull"
| "stringify (JStr s) = JStr s"
| "stringify (JArr xs) = JArr (map stringify xs)"
| "stringify (JObj kvs) = JObj (map (map_prod (\<lambda>name. name) stringify) kvs)"

section \<open>The status normalizer\<close>

text \<open>
  Lines 241 to 246 of the handler:
  \<^verbatim>\<open>
  let status = transaction.status?.toLowerCase() || 'pending';
  if (status === 'created') { status = 'pending'; }
  \<close>
  The argument is the value of \<^verbatim>\<open>transaction.status\<close>, \<open>None\<close> for
  \<^verbatim>\<open>undefined\<close>. The optional chain stops on \<^verbatim>\<open>undefined\<close> and
  \<^verbatim>\<open>null\<close> only; on any other value that is not a string, \<^verbatim>\<open>toLowerCase\<close> is
  \<^verbatim>\<open>undefined\<close> and the call raises.
\<close>

fun lowered :: "runtime \<Rightarrow> json option \<Rightarrow> exn + string option" where
  "lowered rt None = Inr None"
| "lowered rt (Some JNull) = Inr None"
| "lowered rt (Some (JStr s)) = Inr (Some (toLowerCase rt s))"
| "lowered rt (Some v) = Inl TypeError"

definition normalize_status :: "runtime \<Rightarrow> json option \<Rightarrow> exn + string" where
  "normalize_status rt raw =
     (case lowered rt raw of
        Inl e \<Rightarrow> Inl e
      | Inr l \<Rightarrow>
          (let status = (case l of None \<Rightarrow> ''pending''
                         | Some t \<Rightarrow> if t \<noteq> [] then t else ''pending'')
           in Inr (if status = ''created'' then ''pending'' else status)))"

section \<open>The process: store client, console, timers\<close>

text \<open>
  What the module keeps between calls: the flag \<^verbatim>\<open>isShuttingDown\<close> and the Redis
  client. The client is seen through \<^verbatim>\<open>redis.get\<close> alone: for each key it either
  rejects (time-out, connection lost) or replies with the stored string or with
  \<^verbatim>\<open>null\<close> (\<open>None\<close>). Three ghost fields record what the code does to the outside:
  \<open>gets\<close> lists the keys passed to \<^verbatim>\<open>redis.get\<close>, in order; \<open>console\<close> lists
  the lines written with \<^verbatim>\<open>console.log\<close> and \<^verbatim>\<open>console.error\<close>; \<open>timers\<close> lists
  the delays handed to \<^verbatim>\<open>setTimeout\<close>.
\<close>

datatype line =
    Checking string string
  | FoundCompay string
  | FoundLegacy string string
  | ParseFailed string
  | Returning string "json option"
  | NotFound string
  | ErrorChecking exn

datatype log =
    Tagged string string line
  | AlreadyInProgress
  | Banner
  | Received string
  | Stopping
  | Waiting

record world =
  isShuttingDown :: bool
  redis :: "string \<Rightarrow> exn + string option"
  gets :: "string list"
  console :: "log list"
  timers :: "nat list"

type_synonym response = "nat \<times> json"

definition KEY_PREFIX :: string where
  "KEY_PREFIX = ''kob:transaction''"

definition TRANSACTION_TYPES :: "string list" where
  "TRANSACTION_TYPES = [''deposit'', ''withdraw'', ''settlement'']"

definition GRACEFUL_SHUTDOWN_TIMEOUT :: nat where
  "GRACEFUL_SHUTDOWN_TIMEOUT = 30000"

definition console_log :: "log \<Rightarrow> world \<Rightarrow> world" where
  "console_log l w = w\<lparr>console := console w @ [l]\<rparr>"

definition setTimeout :: "nat \<Rightarrow> world \<Rightarrow> world" where
  "setTimeout ms w = w\<lparr>timers := timers w @ [ms]\<rparr>"

definition redis_get :: "string \<Rightarrow> world \<Rightarrow> (exn + string option) \<times> world" where
  "redis_get key w = (redis w key, w\<lparr>gets := gets w @ [key]\<rparr>)"

section \<open>The lookup\<close>

text \<open>The two key shapes, lines 207 and 223:
  \<^verbatim>\<open>`kob:ttf:compay:${id}`\<close> and \<^verbatim>\<open>`${KEY_PREFIX}:${type}:${site}:${id}`\<close>.\<close>

definition providerKey :: "string \<Rightarrow> string" where
  "providerKey txid = ''kob:ttf:compay:'' @ txid"

definition legacyKey :: "string \<Rightarrow> string \<Rightarrow> string \<Rightarrow> string" where
  "legacyKey type site txid = KEY_PREFIX @ '':'' @ type @ '':'' @ site @ '':'' @ txid"

text \<open>
  One read and its guarded parse, written twice in the source (lines 208 to 218 for the
  provider key, 224 to 235 inside the loop):
  \<^verbatim>\<open>
  const data = await redis.get(key);
  if (data) {
    try { transaction = JSON.parse(data); ... console.log(found) ... }
    catch (parseError) { console.error(failed) }
  }
  \<close>
  The result is \<open>Inl\<close> when the read rejects, \<open>Inr (Some v)\<close> when \<open>v\<close> was
  assigned to \<^verbatim>\<open>transaction\<close>, and \<open>Inr None\<close> when nothing was assigned: the
  reply was \<^verbatim>\<open>null\<close> or the empty string, or the parse threw.
\<close>

definition fetch ::
  "runtime \<Rightarrow> string \<Rightarrow> log \<Rightarrow> log \<Rightarrow> world \<Rightarrow> (exn + json option) \<times> world" where
  "fetch rt key found_line failed_line w =
     (case redis_get key w of
        (Inl e, w1) \<Rightarrow> (Inl e, w1)
      | (Inr None, w1) \<Rightarrow> (Inr None, w1)
      | (Inr (Some d), w1) \<Rightarrow>
          if d = [] then (Inr None, w1)
          else (case JSON_parse rt d of
                  None \<Rightarrow> (Inr None, console_log failed_line w1)
                | Some v \<Rightarrow> (Inr (Some v), console_log found_line w1)))"

text \<open>
  The loop over \<^verbatim>\<open>TRANSACTION_TYPES\<close>, lines 222 to 236. A parse that succeeds
  assigns \<^verbatim>\<open>transaction\<close> and leaves the loop with \<^verbatim>\<open>break\<close>, whatever the
  parsed value is.
\<close>

fun legacy ::
  "runtime \<Rightarrow> string \<Rightarrow> string \<Rightarrow> string \<Rightarrow> string \<Rightarrow> string list \<Rightarrow> json \<Rightarrow> world
     \<Rightarrow> (exn + json) \<times> world" where
  "legacy rt dk cid site txid [] transaction w = (Inr transaction, w)"
| "legacy rt dk cid site txid (type # types) transaction w =
     (let key = legacyKey type site txid in
      case fetch rt key (Tagged dk cid (FoundLegacy txid type))
             (Tagged dk cid (ParseFailed key)) w of
        (Inl e, w1) \<Rightarrow> (Inl e, w1)
      | (Inr None, w1) \<Rightarrow> legacy rt dk cid site txid types transaction w1
      | (Inr (Some v), w1) \<Rightarrow> (Inr v, w1))"

text \<open>Lines 203 to 237: \<^verbatim>\<open>transaction\<close> starts as \<^verbatim>\<open>null\<close>, the provider key is
  read first, and the loop runs when \<^verbatim>\<open>!transaction\<close>.\<close>

definition resolve ::
  "runtime \<Rightarrow> string \<Rightarrow> string \<Rightarrow> string \<Rightarrow> string \<Rightarrow> world \<Rightarrow> (exn + json) \<times> world" where
  "resolve rt dk cid site txid w =
     (case fetch rt (providerKey txid) (Tagged dk cid (FoundCompay txid))
             (Tagged dk cid (ParseFailed (providerKey txid))) w of
        (Inl e, w1) \<Rightarrow> (Inl e, w1)
      | (Inr r, w1) \<Rightarrow>
          (let transaction = (case r of None \<Rightarrow> JNull | Some v \<Rightarrow> v) in
           if \<not> truthy transaction
           then legacy rt dk cid site txid TRANSACTION_TYPES transaction w1
           else (Inr transaction, w1)))"

section \<open>The response\<close>

text \<open>The envelope \<^verbatim>\<open>{status: true, message: '', data: {status, amount}}\<close> and
  \<^verbatim>\<open>c.json(body)\<close>, which answers with HTTP 200 and the body as
  \<^verbatim>\<open>JSON.stringify\<close> writes it.\<close>

definition envelope :: "string \<Rightarrow> json \<Rightarrow> json" where
  "envelope status amount =
     JObj [(''status'', JBool True), (''message'', JStr []),
           (''data'', JObj [(''status'', JStr status), (''amount'', amount)])]"

definition c_json :: "json \<Rightarrow> response" where
  "c_json body = (200, stringify body)"

text \<open>\<^verbatim>\<open>transaction.amount || 0\<close>, line 253.\<close>

definition or_zero :: "json option \<Rightarrow> json" where
  "or_zero a = (case a of None \<Rightarrow> JNum 0 | Some v \<Rightarrow> if truthy v then v else JNum 0)"

text \<open>
  The template literal \<^verbatim>\<open>${transaction.amount}\<close> of the log line 257 turns the
  amount into a string. That raises a \<^verbatim>\<open>TypeError\<close> for an object with an own
  property \<^verbatim>\<open>toString\<close> (a parsed value is never a function, and the inherited
  \<^verbatim>\<open>valueOf\<close> returns the object), and for an array with such an element, since
  \<^verbatim>\<open>join\<close> converts each element. Every other value, \<^verbatim>\<open>undefined\<close> included,
  has a string form.
\<close>

fun unprintable :: "json \<Rightarrow> bool" where
  "unprintable (JObj kvs) = (map_of kvs ''toString'' \<noteq> None)"
| "unprintable (JArr xs) = list_ex unprintable xs"
| "unprintable v = False"

definition printable :: "json option \<Rightarrow> bool" where
  "printable a = (case a of None \<Rightarrow> True | Some v \<Rightarrow> \<not> unprintable v)"

text \<open>Lines 240 to 258, the branch taken when \<^verbatim>\<open>transaction\<close> is truthy.
  \<open>read_fields\<close> reads what the branch needs and raises where the branch does, in
  the order of the source: the normalized status first (lines 241 to 246), so an
  exception there leaves the branch before the amount is read, then
  \<^verbatim>\<open>transaction.amount\<close> (line 253) and its string form for the log (line 257).
  Building the response object in between cannot raise.\<close>

definition read_fields :: "runtime \<Rightarrow> json \<Rightarrow> exn + string \<times> json option" where
  "read_fields rt transaction =
     (case member transaction ''status'' of
        Inl e \<Rightarrow> Inl e
      | Inr raw \<Rightarrow>
          (case normalize_status rt raw of
             Inl e \<Rightarrow> Inl e
           | Inr status \<Rightarrow>
               (case member transaction ''amount'' of
                  Inl e \<Rightarrow> Inl e
                | Inr amount \<Rightarrow>
                    if printable amount then Inr (status, amount) else Inl TypeError)))"

definition found ::
  "runtime \<Rightarrow> string \<Rightarrow> string \<Rightarrow> json \<Rightarrow> world \<Rightarrow> (exn + response) \<times> world" where
  "found rt dk cid transaction w =
     (case read_fields rt transaction of
        Inl e \<Rightarrow> (Inl e, w)
      | Inr (status, amount) \<Rightarrow>
          (Inr (c_json (envelope status (or_zero amount))),
           console_log (Tagged dk cid (Returning status amount)) w))"

text \<open>The body of the \<^verbatim>\<open>try\<close> block, lines 201 to 273.\<close>

definition attempt ::
  "runtime \<Rightarrow> string \<Rightarrow> string \<Rightarrow> string \<Rightarrow> string \<Rightarrow> world \<Rightarrow> (exn + response) \<times> world" where
  "attempt rt dk cid site txid w =
     (case resolve rt dk cid site txid w of
        (Inl e, w1) \<Rightarrow> (Inl e, w1)
      | (Inr transaction, w1) \<Rightarrow>
          if truthy transaction then found rt dk cid transaction w1
          else (Inr (c_json (envelope ''pending'' (JNum 0))),
                console_log (Tagged dk cid (NotFound txid)) w1))"

text \<open>\<^verbatim>\<open>c.req.header(name) || fallback\<close>: the header when it is present and not
  empty.\<close>

definition header_or :: "string option \<Rightarrow> string \<Rightarrow> string" where
  "header_or h fallback =
     (case h of None \<Rightarrow> fallback | Some v \<Rightarrow> if v \<noteq> [] then v else fallback)"

text \<open>
  The handler of \<^verbatim>\<open>POST /api/payment/v2/:site/:id\<close>, lines 192 to 289. Its
  arguments are the two path parameters, the two headers it reads and the value
  \<^verbatim>\<open>crypto.randomUUID()\<close> would return. The \<^verbatim>\<open>catch\<close> keeps what was written
  and read before the exception.
\<close>

definition check_transaction ::
  "runtime \<Rightarrow> string \<Rightarrow> string \<Rightarrow> string \<Rightarrow> string option \<Rightarrow> string option \<Rightarrow> world
     \<Rightarrow> response \<times> world" where
  "check_transaction rt randomUUID site txid x_debug_key x_correlation_id w =
     (let debugKey = header_or x_debug_key ''N/A'';
          correlationId = header_or x_correlation_id randomUUID;
          w0 = console_log (Tagged debugKey correlationId (Checking txid site)) w
      in case attempt rt debugKey correlationId site txid w0 of
           (Inr r, w1) \<Rightarrow> (r, w1)
         | (Inl e, w1) \<Rightarrow>
             (c_json (envelope ''pending'' (JNum 0)),
              console_log (Tagged debugKey correlationId (ErrorChecking e)) w1))"

section \<open>Shutdown\<close>

text \<open>
  What a client receives: the HTTP status and the JSON body, \<open>None\<close> for a response
  without one. \<open>sent\<close> is the response a handler made with \<^verbatim>\<open>c.json\<close>, on its way
  out.
\<close>

type_synonym answer = "nat \<times> json option"

definition sent :: "response \<times> world \<Rightarrow> answer \<times> world" where
  "sent rw = (case rw of ((code, body), w) \<Rightarrow> ((code, Some body), w))"

text \<open>
  The middleware registered for every path, lines 156 to 165: while the flag is set it
  answers itself with \<^verbatim>\<open>c.json({...}, 503)\<close> and \<^verbatim>\<open>next\<close>, the rest of the chain
  (the route handlers and the framework's answer for an unknown path), is not called.
  \<open>timestamp\<close> is the value of \<^verbatim>\<open>new Date().toISOString()\<close>.
\<close>

definition shutting_down :: "string \<Rightarrow> json" where
  "shutting_down timestamp =
     JObj [(''status'', JStr ''error''), (''message'', JStr ''Service is shutting down''),
           (''timestamp'', JStr timestamp)]"

definition shutdown_middleware ::
  "string \<Rightarrow> (world \<Rightarrow> answer \<times> world) \<Rightarrow> world \<Rightarrow> answer \<times> world" where
  "shutdown_middleware timestamp next w =
     (if isShuttingDown w then ((503, Some (stringify (shutting_down timestamp))), w)
      else next w)"

text \<open>
  \<^verbatim>\<open>gracefulShutdown\<close>, lines 56 to 96, up to its first \<^verbatim>\<open>await\<close> (line 78): the
  part that runs when the signal is delivered. It sets the flag, writes its lines and
  starts two timers, the 30 second limit and the 2 second grace period. What follows
  the grace period (closing the Redis connection, \<^verbatim>\<open>process.exit\<close>) happens in real
  time and is outside this model.
\<close>

definition gracefulShutdown :: "string \<Rightarrow> world \<Rightarrow> world" where
  "gracefulShutdown signal w =
     (if isShuttingDown w then console_log AlreadyInProgress w
      else
        (let w1 = w\<lparr>isShuttingDown := True\<rparr>;
             w2 = console_log Banner (console_log (Received signal) (console_log Banner w1));
             w3 = setTimeout GRACEFUL_SHUTDOWN_TIMEOUT w2;
             w4 = console_log Waiting (console_log Stopping w3)
         in setTimeout 2000 w4))"

section \<open>The application\<close>

text \<open>
  A request: its method, where the router sends it (\<^verbatim>\<open>app.post\<close> sends only a
  \<^verbatim>\<open>POST\<close> to the handler) and the two headers the handler reads. \<open>Elsewhere\<close>
  stands for every other method and path, among them \<^verbatim>\<open>GET /health\<close>; what answers
  there is the parameter \<open>rest\<close> of \<open>app\<close>.
\<close>

datatype route = Payment string string | Elsewhere

record request =
  http_method :: string
  target :: route
  x_debug_key :: "string option"
  x_correlation_id :: "string option"

text \<open>
  The chain of lines 148 to 165 and the routes behind it. \<^verbatim>\<open>logger()\<close> writes its
  lines and always calls \<^verbatim>\<open>next\<close>. \<^verbatim>\<open>cors(...)\<close> comes from the framework and is
  a parameter: \<open>cors rq\<close> is \<open>Some a\<close> when the middleware answers the request
  itself with \<open>a\<close> and \<open>None\<close> when it calls \<^verbatim>\<open>next\<close>. It stands before the
  shutdown middleware, as in the source.
\<close>

definition app ::
  "runtime \<Rightarrow> (request \<Rightarrow> answer option) \<Rightarrow> (request \<Rightarrow> world \<Rightarrow> answer \<times> world) \<Rightarrow> string
     \<Rightarrow> string \<Rightarrow> request \<Rightarrow> world \<Rightarrow> answer \<times> world" where
  "app rt cors rest randomUUID timestamp rq w =
     (case cors rq of
        Some a \<Rightarrow> (a, w)
      | None \<Rightarrow>
          shutdown_middleware timestamp
            (\<lambda>w'. case target rq of
                     Payment site txid \<Rightarrow>
                       sent (check_transaction rt randomUUID site txid
                               (x_debug_key rq) (x_correlation_id rq) w')
                   | Elsewhere \<Rightarrow> rest rq w')
            w)"

text \<open>
  Modelled from the documentation of the framework's \<^verbatim>\<open>hono/cors\<close>, which is not in
  the repository: a request with the method \<^verbatim>\<open>OPTIONS\<close> (a preflight) is answered
  with status 204 and no body, and \<^verbatim>\<open>next\<close> is not called; every other request is
  passed on.
\<close>

definition hono_cors :: "request \<Rightarrow> answer option" where
  "hono_cors rq = (if http_method rq = ''OPTIONS'' then Some (204, None) else None)"

text \<open>
  What happens to the process, one event at a time: a signal (or an uncaught error)
  calls \<^verbatim>\<open>gracefulShutdown\<close>, a request goes through \<open>app\<close> with the random
  identifier and the clock reading of that moment. \<open>run\<close> collects the answers.
  A request is taken at the moment it enters the chain; requests that overlap in time
  are not modelled.
\<close>

datatype event = Signal string | Incoming request string string

fun run ::
  "runtime \<Rightarrow> (request \<Rightarrow> answer option) \<Rightarrow> (request \<Rightarrow> world \<Rightarrow> answer \<times> world)
     \<Rightarrow> event list \<Rightarrow> world \<Rightarrow> answer list \<times> world" where
  "run rt cors rest [] w = ([], w)"
| "run rt cors rest (Signal signal # evs) w =
     run rt cors rest evs (gracefulShutdown signal w)"
| "run rt cors rest (Incoming rq randomUUID timestamp # evs) w =
     (case app rt cors rest randomUUID timestamp rq w of
        (r, w1) \<Rightarrow> (case run rt cors rest evs w1 of (rs, w2) \<Rightarrow> (r # rs, w2)))"

text \<open>The requests among the events with their clock readings, in order.\<close>

fun arrivals :: "event list \<Rightarrow> (request \<times> string) list" where
  "arrivals [] = []"
| "arrivals (Signal signal # evs) = arrivals evs"
| "arrivals (Incoming rq randomUUID timestamp # evs) = (rq, timestamp) # arrivals evs"

text \<open>The four keys a lookup can read, in the order it reads them.\<close>

definition candidates :: "string \<Rightarrow> string \<Rightarrow> string list" where
  "candidates site txid = providerKey txid # map (\<lambda>type. legacyKey type site txid) TRANSACTION_TYPES"

section \<open>The lookup as a function of the store\<close>

text \<open>
  The definitions of this section are not taken from the source: they say what a
  lookup computes without the state it is threaded through, and the lemmas below show
  that the handler computes exactly that. \<open>parsed\<close> is what one key contributes:
  the exception of a rejected read, nothing (\<open>Inr None\<close>) for a missing, empty or
  unparseable value, or the parsed value.
\<close>

definition parsed ::
  "runtime \<Rightarrow> (string \<Rightarrow> exn + string option) \<Rightarrow> string \<Rightarrow> exn + json option" where
  "parsed rt store key =
     (case store key of
        Inl e \<Rightarrow> Inl e
      | Inr None \<Rightarrow> Inr None
      | Inr (Some d) \<Rightarrow> if d = [] then Inr None else Inr (JSON_parse rt d))"

text \<open>The value the loop ends with and the keys it has read.\<close>

fun probe ::
  "(string \<Rightarrow> exn + json option) \<Rightarrow> string list \<Rightarrow> json \<Rightarrow> (exn + json) \<times> string list" where
  "probe c [] transaction = (Inr transaction, [])"
| "probe c (key # keys) transaction =
     (case c key of
        Inl e \<Rightarrow> (Inl e, [key])
      | Inr None \<Rightarrow> (case probe c keys transaction of (r, seen) \<Rightarrow> (r, key # seen))
      | Inr (Some v) \<Rightarrow> (Inr v, [key]))"

definition lookup ::
  "(string \<Rightarrow> exn + json option) \<Rightarrow> string \<Rightarrow> string \<Rightarrow> (exn + json) \<times> string list" where
  "lookup c site txid =
     (case c (providerKey txid) of
        Inl e \<Rightarrow> (Inl e, [providerKey txid])
      | Inr r \<Rightarrow>
          (let transaction = (case r of None \<Rightarrow> JNull | Some v \<Rightarrow> v) in
           if \<not> truthy transaction
           then (case probe c (map (\<lambda>type. legacyKey type site txid) TRANSACTION_TYPES)
                        transaction of
                   (r, seen) \<Rightarrow> (r, providerKey txid # seen))
           else (Inr transaction, [providerKey txid])))"

text \<open>The response for a given end of the lookup.\<close>

definition reply :: "runtime \<Rightarrow> exn + json \<Rightarrow> response" where
  "reply rt r =
     (case r of
        Inl e \<Rightarrow> c_json (envelope ''pending'' (JNum 0))
      | Inr transaction \<Rightarrow>
          if truthy transaction
          then (case read_fields rt transaction of
                  Inl e \<Rightarrow> c_json (envelope ''pending'' (JNum 0))
                | Inr (status, amount) \<Rightarrow> c_json (envelope status (or_zero amount)))
          else c_json (envelope ''pending'' (JNum 0)))"

text \<open>
  The three things a key can hold for the lookup when its read does not reject:
  nothing (\<^verbatim>\<open>null\<close> or the empty string, which \<^verbatim>\<open>if (data)\<close> skips), a value
  that \<^verbatim>\<open>JSON.parse\<close> refuses, or a value that parses; the parsed value is usable as
  a record when it is truthy.
\<close>

definition missing :: "(string \<Rightarrow> exn + string option) \<Rightarrow> string \<Rightarrow> bool" where
  "missing store key =
     (case store key of Inl e \<Rightarrow> False | Inr None \<Rightarrow> True | Inr (Some d) \<Rightarrow> d = [])"

definition malformed :: "runtime \<Rightarrow> (string \<Rightarrow> exn + string option) \<Rightarrow> string \<Rightarrow> bool" where
  "malformed rt store key =
     (case store key of
        Inl e \<Rightarrow> False
      | Inr None \<Rightarrow> False
      | Inr (Some d) \<Rightarrow> d \<noteq> [] \<and> JSON_parse rt d = None)"

definition usable :: "runtime \<Rightarrow> (string \<Rightarrow> exn + string option) \<Rightarrow> string \<Rightarrow> bool" where
  "usable rt store key =
     (case store key of
        Inl e \<Rightarrow> False
      | Inr None \<Rightarrow> False
      | Inr (Some d) \<Rightarrow>
          d \<noteq> [] \<and> (case JSON_parse rt d of None \<Rightarrow> False | Some v \<Rightarrow> truthy v))"

text \<open>The answer of the not-found and of the error branch, lines 264 to 273 and 278
  to 287.\<close>

definition pending :: response where
  "pending = (200, envelope ''pending'' (JNum 0))"

section \<open>Sample inputs\<close>

text \<open>
  Concrete inputs for the examples that follow the theorems. \<open>sample_runtime\<close> gives
  the values of \<^verbatim>\<open>JSON.parse\<close> on a few texts (it throws on \<^verbatim>\<open>{oops\<close>, as on
  every text not listed) and folds ASCII letters, which is what \<^verbatim>\<open>toLowerCase\<close> does
  on the ASCII strings of the examples. \<open>holding\<close> is a running process whose Redis
  holds exactly the given entries, \<open>outage\<close> one whose every read is rejected.
\<close>

definition sample_runtime :: runtime where
  \<open>sample_runtime =
     \<lparr>JSON_parse =
        map_of
          [(''null'', JNull),
           (''{"status":"SUCCESS","amount":100}'',
              JObj [(''status'', JStr ''SUCCESS''), (''amount'', JNum 100)]),
           (''{"status":"created","amount":"500"}'',
              JObj [(''status'', JStr ''created''), (''amount'', JStr ''500'')]),
           (''{"status":7,"amount":100}'',
              JObj [(''status'', JNum 7), (''amount'', JNum 100)]),
           (''{"status":"sended","amount":1e400}'',
              JObj [(''status'', JStr ''sended''), (''amount'', JInfinity False)])],
      toLowerCase = ascii_lower\<rparr>\<close>

definition holding :: "(string \<times> string) list \<Rightarrow> world" where
  "holding entries =
     \<lparr>isShuttingDown = False, redis = (\<lambda>key. Inr (map_of entries key)),
      gets = [], console = [], timers = []\<rparr>"

definition outage :: world where
  "outage =
     \<lparr>isShuttingDown = False, redis = (\<lambda>key. Inl CommandFailed),
      gets = [], console = [], timers = []\<rparr>"

section \<open>The handler computes the lookup\<close>

lemma stringify_envelope:
  "stringify (envelope status amount) = envelope status (stringify amount)"
  by (simp add: envelope_def)

lemma fetch_fst: "fst (fetch P key f g w) = parsed P (redis w) key"
  by (simp add: fetch_def redis_get_def parsed_def console_log_def
      split: sum.splits option.splits)

lemma fetch_frame:
  "gets (snd (fetch P key f g w)) = gets w @ [key]"
  "redis (snd (fetch P key f g w)) = redis w"
  "isShuttingDown (snd (fetch P key f g w)) = isShuttingDown w"
  "timers (snd (fetch P key f g w)) = timers w"
  by (simp_all add: fetch_def redis_get_def console_log_def split: sum.splits option.splits)

lemma legacy_probe:
  "fst (legacy P dk cid site txid types t w) =
     fst (probe (parsed P (redis w)) (map (\<lambda>type. legacyKey type site txid) types) t) \<and>
   gets (snd (legacy P dk cid site txid types t w)) =
     gets w @ snd (probe (parsed P (redis w)) (map (\<lambda>type. legacyKey type site txid) types) t) \<and>
   redis (snd (legacy P dk cid site txid types t w)) = redis w \<and>
   isShuttingDown (snd (legacy P dk cid site txid types t w)) = isShuttingDown w \<and>
   timers (snd (legacy P dk cid site txid types t w)) = timers w"
proof (induction types arbitrary: w)
  case Nil
  show ?case by simp
next
  case (Cons type types)
  let ?key = "legacyKey type site txid"
  let ?f = "fetch P ?key (Tagged dk cid (FoundLegacy txid type))
              (Tagged dk cid (ParseFailed ?key)) w"
  obtain r w1 where f: "?f = (r, w1)"
    by (cases ?f)
  have r: "r = parsed P (redis w) ?key"
    using arg_cong [OF f, of fst] by (simp add: fetch_fst)
  have w1: "gets w1 = gets w @ [?key]" "redis w1 = redis w"
    "isShuttingDown w1 = isShuttingDown w" "timers w1 = timers w"
    using arg_cong [OF f, of snd]
      fetch_frame [of P ?key "Tagged dk cid (FoundLegacy txid type)"
        "Tagged dk cid (ParseFailed ?key)" w]
    by simp_all
  show ?case
    using Cons.IH [of w1] f r w1
    by (simp add: Let_def split: sum.splits option.splits prod.splits)
qed

lemma resolve_lookup:
  "fst (resolve P dk cid site txid w) = fst (lookup (parsed P (redis w)) site txid) \<and>
   gets (snd (resolve P dk cid site txid w)) =
     gets w @ snd (lookup (parsed P (redis w)) site txid) \<and>
   redis (snd (resolve P dk cid site txid w)) = redis w \<and>
   isShuttingDown (snd (resolve P dk cid site txid w)) = isShuttingDown w \<and>
   timers (snd (resolve P dk cid site txid w)) = timers w"
proof -
  let ?f = "fetch P (providerKey txid) (Tagged dk cid (FoundCompay txid))
              (Tagged dk cid (ParseFailed (providerKey txid))) w"
  obtain r w1 where f: "?f = (r, w1)"
    by (cases ?f)
  have r: "r = parsed P (redis w) (providerKey txid)"
    using arg_cong [OF f, of fst] by (simp add: fetch_fst)
  have w1: "gets w1 = gets w @ [providerKey txid]" "redis w1 = redis w"
    "isShuttingDown w1 = isShuttingDown w" "timers w1 = timers w"
    using arg_cong [OF f, of snd]
      fetch_frame [of P "providerKey txid" "Tagged dk cid (FoundCompay txid)"
        "Tagged dk cid (ParseFailed (providerKey txid))" w]
    by simp_all
  show ?thesis
    using legacy_probe [of P dk cid site txid TRANSACTION_TYPES _ w1] f r w1
    by (simp add: resolve_def lookup_def Let_def split: sum.splits option.splits prod.splits)
qed

lemma found_frame:
  "fst (found P dk cid t w) =
     (case read_fields P t of
        Inl e \<Rightarrow> Inl e
      | Inr (status, amount) \<Rightarrow> Inr (c_json (envelope status (or_zero amount))))"
  "gets (snd (found P dk cid t w)) = gets w"
  "redis (snd (found P dk cid t w)) = redis w"
  "isShuttingDown (snd (found P dk cid t w)) = isShuttingDown w"
  "timers (snd (found P dk cid t w)) = timers w"
  by (simp_all add: found_def console_log_def split: sum.splits prod.splits)

lemma attempt_lookup:
  "(case fst (attempt P dk cid site txid w) of Inl e \<Rightarrow> pending | Inr r \<Rightarrow> r) =
     reply P (fst (lookup (parsed P (redis w)) site txid)) \<and>
   gets (snd (attempt P dk cid site txid w)) =
     gets w @ snd (lookup (parsed P (redis w)) site txid) \<and>
   redis (snd (attempt P dk cid site txid w)) = redis w \<and>
   isShuttingDown (snd (attempt P dk cid site txid w)) = isShuttingDown w \<and>
   timers (snd (attempt P dk cid site txid w)) = timers w"
proof -
  obtain r w1 where f: "resolve P dk cid site txid w = (r, w1)"
    by (cases "resolve P dk cid site txid w")
  show ?thesis
    using resolve_lookup [of P dk cid site txid w] f found_frame [of P dk cid _ w1]
    by (simp add: attempt_def reply_def console_log_def pending_def c_json_def stringify_envelope
        split: sum.splits prod.splits)
qed

lemma check_transaction_lookup:
  "fst (check_transaction P u site txid h1 h2 w) =
     reply P (fst (lookup (parsed P (redis w)) site txid)) \<and>
   gets (snd (check_transaction P u site txid h1 h2 w)) =
     gets w @ snd (lookup (parsed P (redis w)) site txid) \<and>
   redis (snd (check_transaction P u site txid h1 h2 w)) = redis w \<and>
   isShuttingDown (snd (check_transaction P u site txid h1 h2 w)) = isShuttingDown w \<and>
   timers (snd (check_transaction P u site txid h1 h2 w)) = timers w"
proof -
  let ?w0 = "console_log (Tagged (header_or h1 ''N/A'') (header_or h2 u) (Checking txid site)) w"
  let ?a = "attempt P (header_or h1 ''N/A'') (header_or h2 u) site txid ?w0"
  obtain r w1 where f: "?a = (r, w1)"
    by (cases ?a)
  have w0: "redis ?w0 = redis w" "gets ?w0 = gets w" "isShuttingDown ?w0 = isShuttingDown w"
    "timers ?w0 = timers w"
    by (simp_all add: console_log_def)
  show ?thesis
    using attempt_lookup [of P "header_or h1 ''N/A''" "header_or h2 u" site txid ?w0] f w0
    by (simp add: check_transaction_def Let_def console_log_def pending_def c_json_def stringify_envelope
        split: sum.splits)
qed

section \<open>Status normalizer: properties\<close>

lemma ascii_lower_Nil_iff: "ascii_lower s = [] \<longleftrightarrow> s = []"
  by (simp add: ascii_lower_def)

lemma sample_runtime_folds:
  "keeps_nonempty sample_runtime" "folds_ascii sample_runtime"
  by (simp_all add: keeps_nonempty_def folds_ascii_def sample_runtime_def ascii_lower_Nil_iff)

lemma normalize_status_string:
  "normalize_status rt (Some (JStr s)) =
     Inr (if toLowerCase rt s = [] \<or> toLowerCase rt s = ''created'' then ''pending''
          else toLowerCase rt s)"
  by (simp add: normalize_status_def)

text \<open>
  Claim C2. For an absent status (\<^verbatim>\<open>undefined\<close> or \<^verbatim>\<open>null\<close>) the normalizer
  answers \<^verbatim>\<open>pending\<close>. For a string it answers the string folded to lower case by
  the run time's \<^verbatim>\<open>toLowerCase\<close>, except that the folded values \<^verbatim>\<open>created\<close> and
  the empty string become \<^verbatim>\<open>pending\<close>; no other value is rewritten, and the answer
  is never empty and never \<^verbatim>\<open>created\<close>. Since \<^verbatim>\<open>toLowerCase\<close> maps only the
  empty string to the empty string, the empty folded value is the empty input. And
  since it folds ASCII text letter by letter, the answer for an ASCII status is the
  one computed with \<open>ascii_lower\<close>.
\<close>

theorem normalize_string_or_absent:
  "normalize_status rt None = Inr ''pending'' \<and>
   normalize_status rt (Some JNull) = Inr ''pending'' \<and>
   normalize_status rt (Some (JStr s)) =
     Inr (if toLowerCase rt s = [] \<or> toLowerCase rt s = ''created'' then ''pending''
          else toLowerCase rt s) \<and>
   (\<forall>st. normalize_status rt raw = Inr st \<longrightarrow> st \<noteq> [] \<and> st \<noteq> ''created'') \<and>
   (keeps_nonempty rt \<longrightarrow>
      normalize_status rt (Some (JStr [])) = Inr ''pending'' \<and>
      normalize_status rt (Some (JStr s)) =
        Inr (if s = [] then ''pending''
             else if toLowerCase rt s = ''created'' then ''pending''
             else toLowerCase rt s)) \<and>
   (folds_ascii rt \<and> ascii s \<longrightarrow>
      normalize_status rt (Some (JStr s)) =
        Inr (if s = [] then ''pending''
             else if ascii_lower s = ''created'' then ''pending''
             else ascii_lower s))"
proof (intro conjI impI allI)
  show "normalize_status rt None = Inr ''pending''"
    and "normalize_status rt (Some JNull) = Inr ''pending''"
    by (simp_all add: normalize_status_def)
  show "normalize_status rt (Some (JStr s)) =
     Inr (if toLowerCase rt s = [] \<or> toLowerCase rt s = ''created'' then ''pending''
          else toLowerCase rt s)"
    by (rule normalize_status_string)
next
  fix st
  assume "normalize_status rt raw = Inr st"
  then show "st \<noteq> []" and "st \<noteq> ''created''"
    by (auto simp add: normalize_status_def Let_def split: sum.splits option.splits if_splits)
next
  assume k: "keeps_nonempty rt"
  then show "normalize_status rt (Some (JStr [])) = Inr ''pending''"
    by (simp add: normalize_status_string keeps_nonempty_def)
  from k show "normalize_status rt (Some (JStr s)) =
        Inr (if s = [] then ''pending''
             else if toLowerCase rt s = ''created'' then ''pending''
             else toLowerCase rt s)"
    by (simp add: normalize_status_string keeps_nonempty_def)
next
  assume "folds_ascii rt \<and> ascii s"
  then have "toLowerCase rt s = ascii_lower s"
    by (simp add: folds_ascii_def)
  then show "normalize_status rt (Some (JStr s)) =
        Inr (if s = [] then ''pending''
             else if ascii_lower s = ''created'' then ''pending''
             else ascii_lower s)"
    by (simp add: normalize_status_string ascii_lower_Nil_iff)
qed

theorem normalize_string_or_absent_witness:
  "keeps_nonempty sample_runtime \<and> folds_ascii sample_runtime \<and>
   ascii ''SUCCESS'' \<and> ascii ''sended'' \<and> ascii ''successed'' \<and> ascii ''Created'' \<and>
   normalize_status sample_runtime (Some (JStr ''SUCCESS'')) = Inr ''success'' \<and>
   normalize_status sample_runtime (Some (JStr ''sended'')) = Inr ''sended'' \<and>
   normalize_status sample_runtime (Some (JStr ''successed'')) = Inr ''successed'' \<and>
   normalize_status sample_runtime (Some (JStr ''Created'')) = Inr ''pending'' \<and>
   normalize_status sample_runtime (Some (JStr [])) = Inr ''pending''"
proof -
  note k = sample_runtime_folds
  have a: "ascii ''SUCCESS''" "ascii ''sended''" "ascii ''successed''" "ascii ''Created''"
    by (simp_all add: ascii_def)
  have l: "ascii_lower ''SUCCESS'' = ''success''" "ascii_lower ''sended'' = ''sended''"
    "ascii_lower ''successed'' = ''successed''" "ascii_lower ''Created'' = ''created''"
    by (simp_all add: ascii_lower_def lower_char_def)
  have folded: "normalize_status sample_runtime (Some (JStr s)) =
      Inr (if s = [] then ''pending''
           else if ascii_lower s = ''created'' then ''pending'' else ascii_lower s)"
    if "ascii s" for s
    using normalize_string_or_absent [of sample_runtime s None] k(2) that by blast
  have empty: "normalize_status sample_runtime (Some (JStr [])) = Inr ''pending''"
    using normalize_string_or_absent [of sample_runtime "[]" None] k(1) by blast
  from folded [OF a(1)] folded [OF a(2)] folded [OF a(3)] folded [OF a(4)] empty l k a
  show ?thesis
    by simp
qed

section \<open>Lookups that find nothing usable\<close>

lemma usable_parsed:
  "usable P store key \<longleftrightarrow> (\<exists>v. parsed P store key = Inr (Some v) \<and> truthy v)"
  by (auto simp add: usable_def parsed_def split: sum.splits option.splits)

lemma reply_pending:
  "(case r of Inl e \<Rightarrow> True | Inr v \<Rightarrow> \<not> truthy v) \<Longrightarrow> reply P r = pending"
  by (simp add: reply_def pending_def c_json_def stringify_envelope split: sum.splits)

lemma probe_no_usable:
  "\<forall>key\<in>set keys. \<not> usable P store key \<Longrightarrow> \<not> truthy t \<Longrightarrow>
   (case fst (probe (parsed P store) keys t) of Inl e \<Rightarrow> True | Inr v \<Rightarrow> \<not> truthy v)"
proof (induction keys)
  case Nil
  then show ?case by simp
next
  case (Cons key keys)
  then show ?case
    by (auto simp add: usable_parsed split: sum.splits option.splits prod.splits)
qed

lemma lookup_no_usable:
  assumes "\<forall>key\<in>set (candidates site txid). \<not> usable P store key"
  shows "case fst (lookup (parsed P store) site txid) of Inl e \<Rightarrow> True | Inr v \<Rightarrow> \<not> truthy v"
proof -
  have p: "\<not> usable P store (providerKey txid)"
    and l: "\<forall>key\<in>set (map (\<lambda>type. legacyKey type site txid) TRANSACTION_TYPES). \<not> usable P store key"
    using assms by (simp_all add: candidates_def)
  show ?thesis
  proof (cases "parsed P store (providerKey txid)")
    case (Inl e)
    then show ?thesis by (simp add: lookup_def)
  next
    case (Inr r)
    define t where "t = (case r of None \<Rightarrow> JNull | Some v \<Rightarrow> v)"
    have t: "\<not> truthy t"
      using p Inr by (auto simp add: t_def usable_parsed split: option.splits)
    show ?thesis
      using probe_no_usable [OF l t] Inr t
      by (simp add: lookup_def t_def [symmetric] case_prod_unfold)
  qed
qed

lemma reply_200: "fst (reply P r) = 200"
  by (simp add: reply_def c_json_def stringify_envelope split: sum.splits prod.splits)

text \<open>The definitions that unfold a run of the handler, and those of the sample
  inputs.\<close>

lemmas run_defs = check_transaction_def attempt_def resolve_def fetch_def redis_get_def
  console_log_def found_def read_fields_def printable_def normalize_status_def
  ascii_lower_def lower_char_def or_zero_def header_or_def c_json_def envelope_def
  providerKey_def legacyKey_def KEY_PREFIX_def TRANSACTION_TYPES_def Let_def

lemmas sample_defs = holding_def sample_runtime_def pending_def candidates_def

section \<open>Misses and failures\<close>

text \<open>
  Claim C1. Whenever the handler runs and none of the four candidate keys holds a value
  that parses to a usable (truthy) record, be it because the reads miss, the values
  are empty or malformed, or a read is rejected, it answers HTTP 200 with the
  envelope \<^verbatim>\<open>{status: true, message: "", data: {status: "pending", amount: 0}}\<close>.
  The same holds whenever anything inside the \<^verbatim>\<open>try\<close> block raises, and the handler
  answers with HTTP 200 in every case.
\<close>

theorem miss_or_failure_answers_pending:
  "((\<forall>key\<in>set (candidates site txid). \<not> usable P (redis w) key) \<longrightarrow>
      fst (check_transaction P u site txid h1 h2 w) = pending) \<and>
   ((\<exists>e. fst (attempt P (header_or h1 ''N/A'') (header_or h2 u) site txid
              (console_log (Tagged (header_or h1 ''N/A'') (header_or h2 u)
                 (Checking txid site)) w)) = Inl e) \<longrightarrow>
      fst (check_transaction P u site txid h1 h2 w) = pending) \<and>
   fst (fst (check_transaction P u site txid h1 h2 w)) = 200"
proof (intro conjI impI)
  assume "\<forall>key\<in>set (candidates site txid). \<not> usable P (redis w) key"
  then show "fst (check_transaction P u site txid h1 h2 w) = pending"
    using check_transaction_lookup [of P u site txid h1 h2 w]
    by (simp add: lookup_no_usable reply_pending)
next
  assume "\<exists>e. fst (attempt P (header_or h1 ''N/A'') (header_or h2 u) site txid
              (console_log (Tagged (header_or h1 ''N/A'') (header_or h2 u)
                 (Checking txid site)) w)) = Inl e"
  then show "fst (check_transaction P u site txid h1 h2 w) = pending"
    by (auto simp add: check_transaction_def Let_def pending_def c_json_def stringify_envelope
        split: prod.splits sum.splits)
next
  show "fst (fst (check_transaction P u site txid h1 h2 w)) = 200"
    using check_transaction_lookup [of P u site txid h1 h2 w]
    by (simp add: reply_200)
qed

theorem miss_or_failure_answers_pending_witness:
  "list_all (\<lambda>key. \<not> usable sample_runtime (redis (holding [])) key) (candidates ''shop'' ''t1'') \<and>
   fst (check_transaction sample_runtime ''u'' ''shop'' ''t1'' None None (holding [])) = pending \<and>
   fst (attempt sample_runtime ''N/A'' ''u'' ''shop'' ''t1''
          (console_log (Tagged ''N/A'' ''u'' (Checking ''t1'' ''shop'')) outage)) = Inl CommandFailed \<and>
   fst (check_transaction sample_runtime ''u'' ''shop'' ''t1'' None None outage) = pending \<and>
   pending = (200, JObj [(''status'', JBool True), (''message'', JStr ''''),
                (''data'', JObj [(''status'', JStr ''pending''), (''amount'', JNum 0)])])"
proof -
  have a: "\<forall>key\<in>set (candidates ''shop'' ''t1''). \<not> usable sample_runtime (redis (holding [])) key"
    by (simp add: candidates_def TRANSACTION_TYPES_def usable_def holding_def)
  have b: "fst (attempt sample_runtime (header_or None ''N/A'') (header_or None ''u'') ''shop'' ''t1''
          (console_log (Tagged (header_or None ''N/A'') (header_or None ''u'') (Checking ''t1'' ''shop'')) outage)) = Inl CommandFailed"
    by (simp add: run_defs sample_defs outage_def)
  from a b show ?thesis
    using miss_or_failure_answers_pending [of "''shop''" "''t1''" sample_runtime "holding []" "''u''" None None]
      miss_or_failure_answers_pending [of "''shop''" "''t1''" sample_runtime outage "''u''" None None]
    by (simp add: list_all_iff header_or_def pending_def envelope_def)
qed

section \<open>Key priority\<close>

lemma parsed_hit:
  "store key = Inr (Some d) \<Longrightarrow> d \<noteq> [] \<Longrightarrow> parsed P store key = Inr (JSON_parse P d)"
  by (simp add: parsed_def)





section \<open>Number of reads\<close>

lemma probe_seen: "\<exists>n\<le>length keys. snd (probe c keys t) = take n keys"
proof (induction keys)
  case Nil
  show ?case by simp
next
  case (Cons key keys)
  then obtain n where n: "n \<le> length keys" "snd (probe c keys t) = take n keys"
    by blast
  show ?case
  proof (cases "c key")
    case (Inl e)
    then have "snd (probe c (key # keys) t) = take 1 (key # keys)" by simp
    then show ?thesis by (intro exI [of _ 1]) simp
  next
    case (Inr r)
    show ?thesis
    proof (cases r)
      case None
      with Inr n have "snd (probe c (key # keys) t) = take (Suc n) (key # keys)"
        by (simp add: case_prod_unfold)
      with n show ?thesis by (intro exI [of _ "Suc n"]) simp
    next
      case (Some v)
      with Inr have "snd (probe c (key # keys) t) = take 1 (key # keys)" by simp
      then show ?thesis by (intro exI [of _ 1]) simp
    qed
  qed
qed

lemma lookup_seen:
  "\<exists>n. 1 \<le> n \<and> n \<le> 4 \<and> snd (lookup c site txid) = take n (candidates site txid)"
proof -
  let ?keys = "map (\<lambda>type. legacyKey type site txid) TRANSACTION_TYPES"
  have one: "[providerKey txid] = take 1 (candidates site txid)"
    by (simp add: candidates_def)
  have more: "\<exists>n. 1 \<le> n \<and> n \<le> 4 \<and>
      providerKey txid # snd (probe c ?keys t) = take n (candidates site txid)" for t
  proof -
    obtain n where n: "n \<le> length ?keys" "snd (probe c ?keys t) = take n ?keys"
      using probe_seen [of ?keys c t] by blast
    then have "providerKey txid # snd (probe c ?keys t) = take (Suc n) (candidates site txid)"
      by (simp add: candidates_def)
    moreover have "Suc n \<le> 4"
      using n(1) by (simp add: TRANSACTION_TYPES_def)
    ultimately show ?thesis by (intro exI [of _ "Suc n"]) simp
  qed
  show ?thesis
  proof (cases "c (providerKey txid)")
    case (Inl e)
    then have "snd (lookup c site txid) = take 1 (candidates site txid)"
      by (simp add: lookup_def one)
    then show ?thesis by (intro exI [of _ 1]) simp
  next
    case (Inr r)
    define t where "t = (case r of None \<Rightarrow> JNull | Some v \<Rightarrow> v)"
    show ?thesis
    proof (cases "truthy t")
      case True
      with Inr have "snd (lookup c site txid) = take 1 (candidates site txid)"
        by (simp add: lookup_def t_def [symmetric] one)
      then show ?thesis by (intro exI [of _ 1]) simp
    next
      case False
      with Inr have "snd (lookup c site txid) = providerKey txid # snd (probe c ?keys t)"
        by (simp add: lookup_def t_def [symmetric] case_prod_unfold)
      with more [of t] show ?thesis by simp
    qed
  qed
qed

text \<open>
  Claim C6, as amended. The handler performs at least one and at most four reads, one
  after the other: the keys it reads are a non-empty initial part of the four
  candidate keys, the provider key followed by the legacy keys for deposit, withdraw
  and settlement.
\<close>

theorem at_most_four_reads:
  "\<exists>n. 1 \<le> n \<and> n \<le> 4 \<and>
     gets (snd (check_transaction P u site txid h1 h2 w)) =
       gets w @ take n (candidates site txid)"
  using check_transaction_lookup [of P u site txid h1 h2 w]
    lookup_seen [of "parsed P (redis w)" site txid]
  by simp

text \<open>
  Claim C6 as stated (at most two reads) fails: against an empty store the handler reads
  all four keys.
\<close>

theorem two_reads_counterexample:
  "gets (snd (check_transaction sample_runtime ''u'' ''shop'' ''t1'' None None (holding []))) =
     [''kob:ttf:compay:t1'', ''kob:transaction:deposit:shop:t1'',
      ''kob:transaction:withdraw:shop:t1'', ''kob:transaction:settlement:shop:t1''] \<and>
   \<not> length (gets (snd (check_transaction sample_runtime ''u'' ''shop'' ''t1'' None None
         (holding [])))) \<le> 2"
  by (simp add: run_defs sample_defs)

section \<open>Determinism\<close>

text \<open>
  Claim C7. The response of the handler is a function of the site, the transaction id
  and the store (what each key holds, and which reads the client rejects): two calls
  with the same site and id against worlds with the same store give the same response,
  whatever the \<^verbatim>\<open>x-debug-key\<close> and \<^verbatim>\<open>x-correlation-id\<close> headers, the random
  identifier, the console and the reads made before. A call leaves the store as it
  was, so that a repeated call answers the same.
\<close>

theorem response_depends_on_store_only:
  "fst (check_transaction P u' site txid h1' h2' (w'\<lparr>redis := redis w\<rparr>)) =
     fst (check_transaction P u site txid h1 h2 w) \<and>
   redis (snd (check_transaction P u site txid h1 h2 w)) = redis w \<and>
   fst (check_transaction P u' site txid h1' h2' (snd (check_transaction P u site txid h1 h2 w))) =
     fst (check_transaction P u site txid h1 h2 w)"
  using check_transaction_lookup [of P u site txid h1 h2 w]
    check_transaction_lookup [of P u' site txid h1' h2' "w'\<lparr>redis := redis w\<rparr>"]
    check_transaction_lookup [of P u' site txid h1' h2' "snd (check_transaction P u site txid h1 h2 w)"]
  by simp

section \<open>The amount of a found record\<close>

lemma resolve_truthy_reply:
  assumes "fst (resolve P dk cid site txid w) = Inr t" and "truthy t"
  shows "fst (check_transaction P u site txid h1 h2 w) =
           (case read_fields P t of
              Inl e \<Rightarrow> pending
            | Inr (status, amount) \<Rightarrow> (200, envelope status (stringify (or_zero amount))))"
  using assms resolve_lookup [of P dk cid site txid w]
    check_transaction_lookup [of P u site txid h1 h2 w]
  by (simp add: reply_def pending_def c_json_def stringify_envelope
      split: sum.splits prod.splits)

text \<open>
  Claim C5, as amended. For a record the lookup has found and for which the found
  branch raises no exception (its status normalizes and its amount has a string form
  for the log line), \<^verbatim>\<open>data.amount\<close> is the record's \<^verbatim>\<open>amount\<close>, as
  \<^verbatim>\<open>JSON.stringify\<close> writes it, when that value is truthy (a number other than zero,
  a non-empty string, \<^verbatim>\<open>true\<close>, an array, an object) and \<^verbatim>\<open>0\<close> when it is absent
  or falsy. A finite numeric amount is therefore returned as it is, a non-empty string
  amount too, and an amount that overflowed to an infinity is returned as \<^verbatim>\<open>null\<close>.
\<close>

theorem amount_of_found_record:
  assumes "fst (resolve P dk cid site txid w) = Inr t" and "truthy t"
    and "member t ''status'' = Inr raw" and "normalize_status P raw = Inr status"
    and "member t ''amount'' = Inr a" and "printable a"
  shows "\<exists>out.
           fst (check_transaction P u site txid h1 h2 w) =
             (200, JObj [(''status'', JBool True), (''message'', JStr []),
                         (''data'', JObj [(''status'', JStr status), (''amount'', out)])]) \<and>
           out = (case a of None \<Rightarrow> JNum 0
                  | Some v \<Rightarrow> if truthy v then stringify v else JNum 0) \<and>
           (\<forall>n. a = Some (JNum n) \<longrightarrow> out = JNum n) \<and>
           (\<forall>x. a = Some (JStr x) \<longrightarrow> out = (if x = [] then JNum 0 else JStr x)) \<and>
           (\<forall>negative. a = Some (JInfinity negative) \<longrightarrow> out = JNull) \<and>
           (a = None \<or> a = Some JNull \<or> a = Some (JBool False) \<longrightarrow> out = JNum 0)"
proof -
  have "read_fields P t = Inr (status, a)"
    using assms(3-6) by (simp add: read_fields_def)
  then have "fst (check_transaction P u site txid h1 h2 w) =
      (200, JObj [(''status'', JBool True), (''message'', JStr []),
                  (''data'', JObj [(''status'', JStr status),
                                   (''amount'', stringify (or_zero a))])])"
    using resolve_truthy_reply [OF assms(1,2), of u h1 h2] by (simp add: envelope_def)
  moreover have "stringify (or_zero a) =
      (case a of None \<Rightarrow> JNum 0 | Some v \<Rightarrow> if truthy v then stringify v else JNum 0)"
    by (simp add: or_zero_def split: option.splits)
  ultimately show ?thesis
    by (intro exI [of _ "stringify (or_zero a)"]) auto
qed

theorem amount_of_found_record_witness:
  \<open>fst (check_transaction sample_runtime ''u'' ''shop'' ''t1'' None None
      (holding [(''kob:transaction:deposit:shop:t1'', ''{"status":"SUCCESS","amount":100}'')])) =
     (200, JObj [(''status'', JBool True), (''message'', JStr []),
                 (''data'', JObj [(''status'', JStr ''success''), (''amount'', JNum 100)])])\<close>
proof -
  let ?w = \<open>holding [(''kob:transaction:deposit:shop:t1'',
                       ''{"status":"SUCCESS","amount":100}'')]\<close>
  let ?t = "JObj [(''status'', JStr ''SUCCESS''), (''amount'', JNum 100)]"
  have h: "fst (resolve sample_runtime ''N/A'' ''u'' ''shop'' ''t1'' ?w) = Inr ?t" "truthy ?t"
    "member ?t ''status'' = Inr (Some (JStr ''SUCCESS''))"
    "normalize_status sample_runtime (Some (JStr ''SUCCESS'')) = Inr ''success''"
    "member ?t ''amount'' = Inr (Some (JNum 100))" "printable (Some (JNum 100))"
    by (simp_all add: run_defs sample_defs)
  from amount_of_found_record [OF h, of "''u''" None None]
  show ?thesis
    by auto
qed

text \<open>
  Claim C5 as stated fails three times. The amount \<^verbatim>\<open>"500"\<close>, a string, is not
  coerced to \<^verbatim>\<open>0\<close> but returned as it is. A record with the numeric amount
  \<^verbatim>\<open>100\<close> and the numeric status \<^verbatim>\<open>7\<close> is answered with the amount \<^verbatim>\<open>0\<close>,
  because the status raises before the amount is read. And the numeric amount
  \<^verbatim>\<open>1e400\<close>, which parses to infinity, is answered with \<^verbatim>\<open>null\<close>.
\<close>

theorem non_numeric_amount_counterexample:
  \<open>fst (check_transaction sample_runtime ''u'' ''shop'' ''t1'' None None
      (holding [(''kob:transaction:deposit:shop:t1'', ''{"status":"created","amount":"500"}'')])) =
     (200, JObj [(''status'', JBool True), (''message'', JStr []),
                 (''data'', JObj [(''status'', JStr ''pending''), (''amount'', JStr ''500'')])]) \<and>
   JStr ''500'' \<noteq> JNum 0 \<and>
   fst (check_transaction sample_runtime ''u'' ''shop'' ''t1'' None None
      (holding [(''kob:transaction:deposit:shop:t1'', ''{"status":7,"amount":100}'')])) =
     (200, JObj [(''status'', JBool True), (''message'', JStr []),
                 (''data'', JObj [(''status'', JStr ''pending''), (''amount'', JNum 0)])]) \<and>
   JNum 0 \<noteq> JNum 100 \<and>
   fst (check_transaction sample_runtime ''u'' ''shop'' ''t1'' None None
      (holding [(''kob:transaction:deposit:shop:t1'', ''{"status":"sended","amount":1e400}'')])) =
     (200, JObj [(''status'', JBool True), (''message'', JStr []),
                 (''data'', JObj [(''status'', JStr ''sended''), (''amount'', JNull)])]) \<and>
   JNull \<noteq> JInfinity False\<close>
  by (simp add: run_defs sample_defs)

section \<open>Statuses that are not strings\<close>

lemma reply_envelope: "\<exists>status amount. reply P r = (200, envelope status amount)"
  by (auto simp add: reply_def c_json_def stringify_envelope split: sum.splits prod.splits)

lemma normalize_status_raises:
  "s \<noteq> JNull \<Longrightarrow> \<forall>x. s \<noteq> JStr x \<Longrightarrow> normalize_status P (Some s) = Inl TypeError"
  by (cases s) (simp_all add: normalize_status_def)

text \<open>
  Claim C10. When the record the lookup has found carries a status that is neither a
  string nor \<^verbatim>\<open>null\<close> (any truthy value that is not a string, such as a number or
  an object, is one), the normalization raises a \<^verbatim>\<open>TypeError\<close>, the \<^verbatim>\<open>catch\<close>
  takes over and the answer is HTTP 200 with the pending envelope. Whatever the store
  holds, the handler returns a response, with HTTP 200 and an envelope as body.
\<close>

theorem non_string_status_answers_pending:
  "(fst (resolve P dk cid site txid w) = Inr t \<and> truthy t \<and>
    member t ''status'' = Inr (Some s) \<and> s \<noteq> JNull \<and> (\<forall>x. s \<noteq> JStr x) \<longrightarrow>
      fst (found P dk' cid' t w') = Inl TypeError \<and>
      fst (check_transaction P u site txid h1 h2 w) = pending) \<and>
   (\<exists>status amount.
      fst (check_transaction P u site txid h1 h2 w) = (200, envelope status amount))"
proof (intro conjI impI)
  assume a: "fst (resolve P dk cid site txid w) = Inr t \<and> truthy t \<and>
    member t ''status'' = Inr (Some s) \<and> s \<noteq> JNull \<and> (\<forall>x. s \<noteq> JStr x)"
  then have r: "read_fields P t = Inl TypeError"
    by (simp add: read_fields_def normalize_status_raises)
  then show "fst (found P dk' cid' t w') = Inl TypeError"
    by (simp add: found_def)
  from a have "fst (resolve P dk cid site txid w) = Inr t" and "truthy t"
    by simp_all
  from resolve_truthy_reply [OF this, of u h1 h2] r
  show "fst (check_transaction P u site txid h1 h2 w) = pending"
    by simp
next
  show "\<exists>status amount.
      fst (check_transaction P u site txid h1 h2 w) = (200, envelope status amount)"
    using check_transaction_lookup [of P u site txid h1 h2 w]
      reply_envelope [of P "fst (lookup (parsed P (redis w)) site txid)"]
    by simp
qed

theorem non_string_status_answers_pending_witness:
  \<open>fst (found sample_runtime ''N/A'' ''u''
          (JObj [(''status'', JNum 7), (''amount'', JNum 100)]) outage) =
     Inl TypeError \<and>
   fst (check_transaction sample_runtime ''u'' ''shop'' ''t1'' None None
      (holding [(''kob:ttf:compay:t1'', ''{"status":7,"amount":100}'')])) = pending\<close>
  using non_string_status_answers_pending [of sample_runtime "''N/A''" "''u''" "''shop''" "''t1''"
      \<open>holding [(''kob:ttf:compay:t1'', ''{"status":7,"amount":100}'')]\<close>
      "JObj [(''status'', JNum 7), (''amount'', JNum 100)]" "JNum 7"
      "''N/A''" "''u''" outage "''u''" None None]
  by (simp add: run_defs sample_defs)

section \<open>Shutdown: properties\<close>

lemma gracefulShutdown_sets: "isShuttingDown (gracefulShutdown signal w)"
  by (simp add: gracefulShutdown_def console_log_def setTimeout_def Let_def)

lemma gracefulShutdown_again:
  "isShuttingDown w \<Longrightarrow> gracefulShutdown signal w = console_log AlreadyInProgress w"
  by (simp add: gracefulShutdown_def)

lemma middleware_shutting_down:
  "isShuttingDown w \<Longrightarrow>
   shutdown_middleware ts next w =
     ((503, Some (JObj [(''status'', JStr ''error''),
                        (''message'', JStr ''Service is shutting down''),
                        (''timestamp'', JStr ts)])), w)"
  by (simp add: shutdown_middleware_def shutting_down_def)

lemma app_shutting_down:
  "isShuttingDown w \<Longrightarrow>
   app P cors rest u ts rq w =
     ((case cors rq of
         None \<Rightarrow>
           (503, Some (JObj [(''status'', JStr ''error''),
                             (''message'', JStr ''Service is shutting down''),
                             (''timestamp'', JStr ts)]))
       | Some a \<Rightarrow> a), w)"
  by (simp add: app_def middleware_shutting_down split: option.splits)

lemma run_shutting_down:
  "isShuttingDown w \<Longrightarrow>
   fst (run P cors rest evs w) =
     map (\<lambda>(rq, ts).
            case cors rq of
              None \<Rightarrow>
                (503, Some (JObj [(''status'', JStr ''error''),
                                  (''message'', JStr ''Service is shutting down''),
                                  (''timestamp'', JStr ts)]))
            | Some a \<Rightarrow> a)
       (arrivals evs) \<and>
   isShuttingDown (snd (run P cors rest evs w)) \<and>
   timers (snd (run P cors rest evs w)) = timers w \<and>
   gets (snd (run P cors rest evs w)) = gets w \<and>
   redis (snd (run P cors rest evs w)) = redis w"
proof (induction evs arbitrary: w)
  case Nil
  then show ?case by simp
next
  case (Cons ev evs)
  show ?case
  proof (cases ev)
    case (Signal signal)
    have "isShuttingDown (console_log AlreadyInProgress w)"
      using Cons.prems by (simp add: console_log_def)
    from Cons.IH [OF this] show ?thesis
      using Cons.prems Signal by (simp add: gracefulShutdown_again console_log_def)
  next
    case (Incoming rq u ts)
    from Cons.IH [OF Cons.prems] show ?thesis
      using Cons.prems Incoming
      by (auto simp add: app_shutting_down split: prod.splits option.splits)
  qed
qed

text \<open>
  Claim C8, as amended. The first termination signal sets the shutdown flag. From then
  on the shutdown middleware answers every request that reaches it, whatever the route
  and whatever handler would have come next, with HTTP 503 and the body
  \<^verbatim>\<open>{status: "error", message: "Service is shutting down", timestamp}\<close>, whose
  timestamp is the clock reading of the request. The requests that reach it are those
  the \<^verbatim>\<open>cors\<close> middleware before it passes on; a request \<^verbatim>\<open>cors\<close> answers itself
  gets that answer: with the framework's \<^verbatim>\<open>cors\<close>, a preflight is answered with 204
  and every other request with the 503. This holds for every later sequence of
  requests and signals, during which the flag stays set. A further signal only writes the line "shutdown
  already in progress": the flag and the timers of the running shutdown are as before.
\<close>

theorem shutdown_answers_503_and_is_idempotent:
  "isShuttingDown (gracefulShutdown signal w) \<and>
   shutdown_middleware ts next (gracefulShutdown signal w) =
     ((503, Some (JObj [(''status'', JStr ''error''),
                        (''message'', JStr ''Service is shutting down''),
                        (''timestamp'', JStr ts)])),
      gracefulShutdown signal w) \<and>
   (cors rq = None \<longrightarrow>
      app P cors rest u ts rq (gracefulShutdown signal w) =
        ((503, Some (JObj [(''status'', JStr ''error''),
                           (''message'', JStr ''Service is shutting down''),
                           (''timestamp'', JStr ts)])),
         gracefulShutdown signal w)) \<and>
   (\<forall>a. cors rq = Some a \<longrightarrow>
      app P cors rest u ts rq (gracefulShutdown signal w) = (a, gracefulShutdown signal w)) \<and>
   fst (run P cors rest evs (gracefulShutdown signal w)) =
     map (\<lambda>(rq, ts).
            case cors rq of
              None \<Rightarrow>
                (503, Some (JObj [(''status'', JStr ''error''),
                                  (''message'', JStr ''Service is shutting down''),
                                  (''timestamp'', JStr ts)]))
            | Some a \<Rightarrow> a)
       (arrivals evs) \<and>
   isShuttingDown (snd (run P cors rest evs (gracefulShutdown signal w))) \<and>
   timers (snd (run P cors rest evs (gracefulShutdown signal w))) =
     timers (gracefulShutdown signal w) \<and>
   gracefulShutdown signal' (gracefulShutdown signal w) =
     console_log AlreadyInProgress (gracefulShutdown signal w) \<and>
   fst (app P hono_cors rest u ts rq (gracefulShutdown signal w)) =
     (if http_method rq = ''OPTIONS'' then (204, None)
      else (503, Some (JObj [(''status'', JStr ''error''),
                             (''message'', JStr ''Service is shutting down''),
                             (''timestamp'', JStr ts)])))"
  using run_shutting_down [OF gracefulShutdown_sets, of P cors rest evs signal w]
  by (simp add: gracefulShutdown_sets gracefulShutdown_again app_shutting_down
      middleware_shutting_down hono_cors_def)

theorem shutdown_answers_503_and_is_idempotent_witness:
  "hono_cors \<lparr>http_method = ''POST'', target = Payment ''shop'' ''t1'', x_debug_key = None,
      x_correlation_id = None\<rparr> = None \<and>
   fst (run sample_runtime hono_cors (\<lambda>rq w. ((404, None), w))
          [Incoming \<lparr>http_method = ''POST'', target = Payment ''shop'' ''t1'', x_debug_key = None,
               x_correlation_id = None\<rparr> ''u1'' ''2026-01-02T12:00:00.000Z'',
           Signal ''SIGINT'',
           Incoming \<lparr>http_method = ''GET'', target = Elsewhere, x_debug_key = None,
               x_correlation_id = None\<rparr> ''u2'' ''2026-01-02T12:00:01.000Z'']
          (gracefulShutdown ''SIGTERM'' (holding []))) =
     [(503, Some (JObj [(''status'', JStr ''error''),
                        (''message'', JStr ''Service is shutting down''),
                        (''timestamp'', JStr ''2026-01-02T12:00:00.000Z'')])),
      (503, Some (JObj [(''status'', JStr ''error''),
                        (''message'', JStr ''Service is shutting down''),
                        (''timestamp'', JStr ''2026-01-02T12:00:01.000Z'')]))] \<and>
   timers (gracefulShutdown ''SIGINT'' (gracefulShutdown ''SIGTERM'' (holding []))) =
     [30000, 2000]"
proof -
  let ?post = "\<lparr>http_method = ''POST'', target = Payment ''shop'' ''t1'', x_debug_key = None,
      x_correlation_id = None\<rparr>"
  let ?get = "\<lparr>http_method = ''GET'', target = Elsewhere, x_debug_key = None,
      x_correlation_id = None\<rparr>"
  let ?evs = "[Incoming ?post ''u1'' ''2026-01-02T12:00:00.000Z'', Signal ''SIGINT'',
      Incoming ?get ''u2'' ''2026-01-02T12:00:01.000Z'']"
  note t = shutdown_answers_503_and_is_idempotent [of "''SIGTERM''" "holding []" "[]"
      "\<lambda>w. ((404, None), w)" hono_cors ?post sample_runtime
      "\<lambda>rq w. ((404, None), w)" "[]" ?evs "''SIGINT''"]
  have c: "hono_cors ?post = None" "hono_cors ?get = None"
    by (simp_all add: hono_cors_def)
  have a: "arrivals ?evs =
      [(?post, ''2026-01-02T12:00:00.000Z''), (?get, ''2026-01-02T12:00:01.000Z'')]"
    by simp
  have b: "timers (gracefulShutdown ''SIGTERM'' (holding [])) = [30000, 2000]"
    by (simp add: gracefulShutdown_def holding_def console_log_def setTimeout_def
        GRACEFUL_SHUTDOWN_TIMEOUT_def Let_def)
  have r: "fst (run sample_runtime hono_cors (\<lambda>rq w. ((404, None), w)) ?evs
      (gracefulShutdown ''SIGTERM'' (holding []))) =
      map (\<lambda>(rq, ts).
            case hono_cors rq of
              None \<Rightarrow>
                (503, Some (JObj [(''status'', JStr ''error''),
                                  (''message'', JStr ''Service is shutting down''),
                                  (''timestamp'', JStr ts)]))
            | Some a \<Rightarrow> a)
       (arrivals ?evs)"
    by (rule t [THEN conjunct2, THEN conjunct2, THEN conjunct2, THEN conjunct2, THEN conjunct1])
  have g: "gracefulShutdown ''SIGINT'' (gracefulShutdown ''SIGTERM'' (holding [])) =
      console_log AlreadyInProgress (gracefulShutdown ''SIGTERM'' (holding []))"
    by (rule t [THEN conjunct2, THEN conjunct2, THEN conjunct2, THEN conjunct2, THEN conjunct2,
          THEN conjunct2, THEN conjunct2, THEN conjunct1])
  from r g a b c show ?thesis
    by (simp add: console_log_def)
qed

text \<open>
  Claim C8 as stated fails twice. With the \<^verbatim>\<open>cors\<close> middleware of the framework in
  its place, a preflight (\<^verbatim>\<open>OPTIONS\<close>) that arrives while the flag is set is answered
  with 204, not with 503, for any path. And the body of the 503 is not fixed: it
  carries the clock reading, so two requests at different times get different bodies.
\<close>

theorem preflight_counterexample:
  "isShuttingDown (gracefulShutdown ''SIGTERM'' (holding [])) \<and>
   fst (app sample_runtime hono_cors (\<lambda>rq w. ((404, None), w)) ''u''
          ''2026-01-02T12:00:00.000Z''
          \<lparr>http_method = ''OPTIONS'', target = Elsewhere, x_debug_key = None,
             x_correlation_id = None\<rparr>
          (gracefulShutdown ''SIGTERM'' (holding []))) = (204, None) \<and>
   fst (app sample_runtime hono_cors (\<lambda>rq w. ((404, None), w)) ''u''
          ''2026-01-02T12:00:00.000Z''
          \<lparr>http_method = ''POST'', target = Payment ''shop'' ''t1'', x_debug_key = None,
             x_correlation_id = None\<rparr>
          (gracefulShutdown ''SIGTERM'' (holding []))) \<noteq>
   fst (app sample_runtime hono_cors (\<lambda>rq w. ((404, None), w)) ''u''
          ''2026-01-02T12:00:01.000Z''
          \<lparr>http_method = ''POST'', target = Payment ''shop'' ''t1'', x_debug_key = None,
             x_correlation_id = None\<rparr>
          (gracefulShutdown ''SIGTERM'' (holding [])))"
  by (simp add: app_def hono_cors_def shutdown_middleware_def shutting_down_def
      gracefulShutdown_def holding_def console_log_def setTimeout_def Let_def)

section \<open>Malformed values\<close>

lemma parsed_none_iff:
  "parsed P store key = Inr None \<longleftrightarrow> missing store key \<or> malformed P store key"
  by (auto simp add: parsed_def missing_def malformed_def split: sum.splits option.splits)

lemma parsed_malformed_update:
  assumes "malformed P store key"
  shows "parsed P (store(key := Inr None)) = parsed P store"
proof
  fix k
  show "parsed P (store(key := Inr None)) k = parsed P store k"
    using assms by (auto simp add: parsed_def malformed_def split: sum.splits option.splits)
qed

lemma probe_all_none:
  "\<forall>key\<in>set keys. c key = Inr None \<Longrightarrow> probe c keys t = (Inr t, keys)"
  by (induction keys) simp_all

lemma lookup_all_none:
  assumes "\<forall>key\<in>set (candidates site txid). c key = Inr None"
  shows "lookup c site txid = (Inr JNull, candidates site txid)"
proof -
  have "c (providerKey txid) = Inr None"
    and "\<forall>key\<in>set (map (\<lambda>type. legacyKey type site txid) TRANSACTION_TYPES). c key = Inr None"
    using assms by (simp_all add: candidates_def)
  then show ?thesis
    by (simp add: lookup_def probe_all_none candidates_def)
qed

lemma probe_falsy_seen:
  "fst (probe c keys t) = Inr t' \<Longrightarrow> \<not> truthy t' \<Longrightarrow>
   \<forall>key\<in>set (snd (probe c keys t)).
     c key = Inr None \<or> (\<exists>v. c key = Inr (Some v) \<and> \<not> truthy v)"
proof (induction keys)
  case Nil
  then show ?case by simp
next
  case (Cons key keys)
  then show ?case
    by (cases "c key") (auto simp add: case_prod_unfold split: option.splits)
qed

lemma lookup_falsy_seen:
  assumes "fst (lookup c site txid) = Inr t'" and "\<not> truthy t'"
  shows "\<forall>key\<in>set (snd (lookup c site txid)).
     c key = Inr None \<or> (\<exists>v. c key = Inr (Some v) \<and> \<not> truthy v)"
proof (cases "c (providerKey txid)")
  case (Inl e)
  with assms show ?thesis by (simp add: lookup_def)
next
  case (Inr r)
  define t where "t = (case r of None \<Rightarrow> JNull | Some v \<Rightarrow> v)"
  let ?keys = "map (\<lambda>type. legacyKey type site txid) TRANSACTION_TYPES"
  show ?thesis
  proof (cases "truthy t")
    case True
    with Inr assms show ?thesis
      by (simp add: lookup_def t_def [symmetric])
  next
    case False
    have p: "c (providerKey txid) = Inr None \<or>
        (\<exists>v. c (providerKey txid) = Inr (Some v) \<and> \<not> truthy v)"
      using Inr False by (cases r) (simp_all add: t_def)
    have l: "lookup c site txid =
        (fst (probe c ?keys t), providerKey txid # snd (probe c ?keys t))"
      using Inr False by (simp add: lookup_def t_def [symmetric] case_prod_unfold)
    with assms have "fst (probe c ?keys t) = Inr t'" by simp
    from probe_falsy_seen [OF this assms(2)] p l show ?thesis by simp
  qed
qed

text \<open>
  Claim C4, as amended. A stored value that fails to parse is treated exactly like a
  miss for that key: replacing it by a missing value changes neither the response nor
  the keys read, so the lookup goes on to the remaining candidates in order. When
  every candidate is missing or malformed, the lookup reads all four keys in order
  (the provider key, then deposit, withdraw, settlement), ends with no record and the
  handler gives the not-found answer. And the lookup ends with no record only when no
  key it has read holds a usable record: each of them is missing, malformed or parses
  to a falsy value.
\<close>

theorem malformed_value_is_a_miss:
  "(malformed P (redis w) key \<longrightarrow>
      fst (check_transaction P u site txid h1 h2 (w\<lparr>redis := (redis w)(key := Inr None)\<rparr>)) =
        fst (check_transaction P u site txid h1 h2 w) \<and>
      gets (snd (check_transaction P u site txid h1 h2
                   (w\<lparr>redis := (redis w)(key := Inr None)\<rparr>))) =
        gets (snd (check_transaction P u site txid h1 h2 w))) \<and>
   ((\<forall>key\<in>set (candidates site txid). missing (redis w) key \<or> malformed P (redis w) key) \<longrightarrow>
      fst (resolve P dk cid site txid w) = Inr JNull \<and>
      gets (snd (resolve P dk cid site txid w)) = gets w @ candidates site txid \<and>
      fst (check_transaction P u site txid h1 h2 w) = pending) \<and>
   (fst (resolve P dk cid site txid w) = Inr t \<and> \<not> truthy t \<and>
    gets (snd (resolve P dk cid site txid w)) = gets w @ seen \<longrightarrow>
      (\<forall>key\<in>set seen.
         missing (redis w) key \<or> malformed P (redis w) key \<or>
         (\<exists>v. parsed P (redis w) key = Inr (Some v) \<and> \<not> truthy v)))"
proof (intro conjI impI)
  assume "malformed P (redis w) key"
  then have "parsed P ((redis w)(key := Inr None)) = parsed P (redis w)"
    by (rule parsed_malformed_update)
  then show "fst (check_transaction P u site txid h1 h2 (w\<lparr>redis := (redis w)(key := Inr None)\<rparr>)) =
        fst (check_transaction P u site txid h1 h2 w)"
    and "gets (snd (check_transaction P u site txid h1 h2
                   (w\<lparr>redis := (redis w)(key := Inr None)\<rparr>))) =
        gets (snd (check_transaction P u site txid h1 h2 w))"
    using check_transaction_lookup [of P u site txid h1 h2 w]
      check_transaction_lookup [of P u site txid h1 h2 "w\<lparr>redis := (redis w)(key := Inr None)\<rparr>"]
    by simp_all
next
  assume "\<forall>key\<in>set (candidates site txid). missing (redis w) key \<or> malformed P (redis w) key"
  then have "\<forall>key\<in>set (candidates site txid). parsed P (redis w) key = Inr None"
    by (simp add: parsed_none_iff)
  then have l: "lookup (parsed P (redis w)) site txid = (Inr JNull, candidates site txid)"
    by (rule lookup_all_none)
  show "fst (resolve P dk cid site txid w) = Inr JNull"
    and "gets (snd (resolve P dk cid site txid w)) = gets w @ candidates site txid"
    using resolve_lookup [of P dk cid site txid w] l by simp_all
  show "fst (check_transaction P u site txid h1 h2 w) = pending"
    using check_transaction_lookup [of P u site txid h1 h2 w] l
    by (simp add: reply_pending)
next
  assume a: "fst (resolve P dk cid site txid w) = Inr t \<and> \<not> truthy t \<and>
    gets (snd (resolve P dk cid site txid w)) = gets w @ seen"
  then have "fst (lookup (parsed P (redis w)) site txid) = Inr t" and "\<not> truthy t"
    and "seen = snd (lookup (parsed P (redis w)) site txid)"
    using resolve_lookup [of P dk cid site txid w] by simp_all
  then show "\<forall>key\<in>set seen.
         missing (redis w) key \<or> malformed P (redis w) key \<or>
         (\<exists>v. parsed P (redis w) key = Inr (Some v) \<and> \<not> truthy v)"
    using lookup_falsy_seen [of "parsed P (redis w)" site txid t]
    by (simp add: parsed_none_iff disj_assoc)
qed

theorem malformed_value_is_a_miss_witness:
  \<open>malformed sample_runtime
     (redis (holding [(''kob:ttf:compay:t1'', ''{oops''),
        (''kob:transaction:deposit:shop:t1'', ''{"status":"SUCCESS","amount":100}'')]))
     ''kob:ttf:compay:t1'' \<and>
   fst (check_transaction sample_runtime ''u'' ''shop'' ''t1'' None None
     (holding [(''kob:ttf:compay:t1'', ''{oops''),
        (''kob:transaction:deposit:shop:t1'', ''{"status":"SUCCESS","amount":100}'')])) =
     (200, envelope ''success'' (JNum 100)) \<and>
   list_all (\<lambda>key. missing (redis (holding [(''kob:ttf:compay:t1'', ''{oops''),
        (''kob:transaction:withdraw:shop:t1'', ''{oops'')])) key \<or>
      malformed sample_runtime (redis (holding [(''kob:ttf:compay:t1'', ''{oops''),
        (''kob:transaction:withdraw:shop:t1'', ''{oops'')])) key)
     (candidates ''shop'' ''t1'') \<and>
   gets (snd (resolve sample_runtime ''N/A'' ''u'' ''shop'' ''t1''
     (holding [(''kob:ttf:compay:t1'', ''{oops''),
        (''kob:transaction:withdraw:shop:t1'', ''{oops'')]))) =
     [''kob:ttf:compay:t1'', ''kob:transaction:deposit:shop:t1'',
      ''kob:transaction:withdraw:shop:t1'', ''kob:transaction:settlement:shop:t1''] \<and>
   fst (check_transaction sample_runtime ''u'' ''shop'' ''t1'' None None
     (holding [(''kob:ttf:compay:t1'', ''{oops''),
        (''kob:transaction:withdraw:shop:t1'', ''{oops'')])) = pending\<close>
proof -
  let ?w1 = \<open>holding [(''kob:ttf:compay:t1'', ''{oops''),
        (''kob:transaction:deposit:shop:t1'', ''{"status":"SUCCESS","amount":100}'')]\<close>
  let ?w2 = "holding [(''kob:ttf:compay:t1'', ''{oops''),
        (''kob:transaction:withdraw:shop:t1'', ''{oops'')]"
  have m1: "malformed sample_runtime (redis ?w1) ''kob:ttf:compay:t1''"
    by (simp add: malformed_def holding_def sample_runtime_def)
  have r1: "fst (check_transaction sample_runtime ''u'' ''shop'' ''t1'' None None
      (?w1\<lparr>redis := (redis ?w1)(''kob:ttf:compay:t1'' := Inr None)\<rparr>)) =
      (200, envelope ''success'' (JNum 100))"
    by (simp add: run_defs sample_defs)
  have m2: "\<forall>key\<in>set (candidates ''shop'' ''t1'').
      missing (redis ?w2) key \<or> malformed sample_runtime (redis ?w2) key"
    by (simp add: run_defs sample_defs missing_def malformed_def)
  have c: "candidates ''shop'' ''t1'' =
      [''kob:ttf:compay:t1'', ''kob:transaction:deposit:shop:t1'',
       ''kob:transaction:withdraw:shop:t1'', ''kob:transaction:settlement:shop:t1'']"
    by (simp add: run_defs sample_defs)
  from malformed_value_is_a_miss [of sample_runtime ?w1 "''kob:ttf:compay:t1''" "''u''"
      "''shop''" "''t1''" None None "''N/A''" "''u''" JNull "[]"] m1 r1
  have a: "fst (check_transaction sample_runtime ''u'' ''shop'' ''t1'' None None ?w1) =
      (200, envelope ''success'' (JNum 100))"
    by simp
  from malformed_value_is_a_miss [of sample_runtime ?w2 "''kob:ttf:compay:t1''" "''u''"
      "''shop''" "''t1''" None None "''N/A''" "''u''" JNull "[]"] m2
  have b: "gets (snd (resolve sample_runtime ''N/A'' ''u'' ''shop'' ''t1'' ?w2)) =
      gets ?w2 @ candidates ''shop'' ''t1''"
    and b': "fst (check_transaction sample_runtime ''u'' ''shop'' ''t1'' None None ?w2) = pending"
    by blast+
  have g: "gets ?w2 = []"
    by (simp add: holding_def)
  from m1 m2 a b b' show ?thesis
    by (simp only: list_all_iff g c append_Nil simp_thms)
qed

text \<open>
  Claim C4 as stated fails in its last part: the handler gives the not-found answer
  although the provider key neither misses nor is malformed. Its value, the text
  \<^verbatim>\<open>null\<close>, parses.
\<close>

theorem parsed_null_counterexample:
  "fst (resolve sample_runtime ''N/A'' ''u'' ''shop'' ''t1''
          (holding [(''kob:ttf:compay:t1'', ''null'')])) = Inr JNull \<and>
   last (console (snd (check_transaction sample_runtime ''u'' ''shop'' ''t1'' None None
          (holding [(''kob:ttf:compay:t1'', ''null'')])))) =
     Tagged ''N/A'' ''u'' (NotFound ''t1'') \<and>
   fst (check_transaction sample_runtime ''u'' ''shop'' ''t1'' None None
          (holding [(''kob:ttf:compay:t1'', ''null'')])) = pending \<and>
   \<not> missing (redis (holding [(''kob:ttf:compay:t1'', ''null'')])) ''kob:ttf:compay:t1'' \<and>
   \<not> malformed sample_runtime (redis (holding [(''kob:ttf:compay:t1'', ''null'')]))
       ''kob:ttf:compay:t1''"
  by (simp add: run_defs sample_defs missing_def malformed_def)

section \<open>Values that parse to a falsy value\<close>

lemma probe_start:
  "snd (probe c keys t) = snd (probe c keys t') \<and>
   (\<not> truthy t \<longrightarrow> \<not> truthy t' \<longrightarrow>
      reply P (fst (probe c keys t)) = reply P (fst (probe c keys t')))"
proof (induction keys)
  case Nil
  show ?case by (simp add: reply_pending)
next
  case (Cons key keys)
  then show ?case
    by (cases "c key") (auto simp add: case_prod_unfold split: option.splits)
qed

lemma probe_cong:
  "\<forall>key\<in>set keys. c' key = c key \<Longrightarrow> probe c' keys t = probe c keys t"
  by (induction keys) (simp_all split: sum.splits option.splits)

lemma lookup_falsy_provider:
  assumes "c (providerKey txid) = Inr (Some v)" and "\<not> truthy v"
  shows "reply P (fst (lookup (c(providerKey txid := Inr None)) site txid)) =
           reply P (fst (lookup c site txid)) \<and>
         snd (lookup (c(providerKey txid := Inr None)) site txid) = snd (lookup c site txid) \<and>
         (\<exists>n. 2 \<le> n \<and> n \<le> 4 \<and> snd (lookup c site txid) = take n (candidates site txid))"
proof -
  let ?keys = "map (\<lambda>type. legacyKey type site txid) TRANSACTION_TYPES"
  let ?c = "c(providerKey txid := Inr None)"
  have other: "\<forall>key\<in>set ?keys. ?c key = c key"
    by (simp add: TRANSACTION_TYPES_def legacyKey_def providerKey_def KEY_PREFIX_def)
  have same: "probe ?c ?keys t = probe c ?keys t" for t
    using other by (rule probe_cong)
  have l: "lookup c site txid = (fst (probe c ?keys v), providerKey txid # snd (probe c ?keys v))"
    using assms by (simp add: lookup_def case_prod_unfold)
  have l': "lookup ?c site txid =
      (fst (probe c ?keys JNull), providerKey txid # snd (probe c ?keys JNull))"
    by (simp add: lookup_def case_prod_unfold same)
  obtain n where n: "n \<le> length ?keys" "snd (probe c ?keys v) = take n ?keys"
    using probe_seen [of ?keys c v] by blast
  have "snd (probe c ?keys v) \<noteq> []"
    by (cases "c (legacyKey ''deposit'' site txid)")
      (auto simp add: TRANSACTION_TYPES_def case_prod_unfold split: option.splits)
  with n have "1 \<le> n" by (cases n) simp_all
  moreover have "snd (lookup c site txid) = take (Suc n) (candidates site txid)"
    using l n by (simp add: candidates_def)
  moreover have "Suc n \<le> 4"
    using n(1) by (simp add: TRANSACTION_TYPES_def)
  ultimately have "\<exists>n. 2 \<le> n \<and> n \<le> 4 \<and> snd (lookup c site txid) = take n (candidates site txid)"
    by (intro exI [of _ "Suc n"]) simp
  then show ?thesis
    using l l' probe_start [where c = c and keys = ?keys and t = JNull and t' = v and P = P]
      assms(2)
    by simp
qed

lemma parsed_update_none:
  "parsed P (store(key := Inr None)) = (parsed P store)(key := Inr None)"
  by (rule ext) (simp add: parsed_def)

text \<open>
  Claim C9, as amended. When the value at the provider key parses to a falsy JSON value
  (\<^verbatim>\<open>null\<close>, \<^verbatim>\<open>false\<close>, \<^verbatim>\<open>0\<close>, the empty string), the handler treats that key
  as a miss: it goes on to the legacy keys and answers, with the same reads, as if the
  provider key were absent. A falsy value is never taken for a found record: whenever
  the lookup ends with a falsy value, the handler takes the not-found branch and
  answers with the pending envelope.
\<close>

theorem falsy_provider_value_is_a_miss:
  "(redis w (providerKey txid) = Inr (Some d) \<and> d \<noteq> [] \<and> JSON_parse P d = Some v \<and>
    \<not> truthy v \<longrightarrow>
      fst (check_transaction P u site txid h1 h2
             (w\<lparr>redis := (redis w)(providerKey txid := Inr None)\<rparr>)) =
        fst (check_transaction P u site txid h1 h2 w) \<and>
      gets (snd (check_transaction P u site txid h1 h2
                   (w\<lparr>redis := (redis w)(providerKey txid := Inr None)\<rparr>))) =
        gets (snd (check_transaction P u site txid h1 h2 w)) \<and>
      (\<exists>n. 2 \<le> n \<and> n \<le> 4 \<and>
         gets (snd (check_transaction P u site txid h1 h2 w)) =
           gets w @ take n (candidates site txid))) \<and>
   (fst (resolve P dk cid site txid w) = Inr t \<and> \<not> truthy t \<longrightarrow>
      attempt P dk cid site txid w =
        (Inr pending,
         console_log (Tagged dk cid (NotFound txid)) (snd (resolve P dk cid site txid w))) \<and>
      fst (check_transaction P u site txid h1 h2 w) = pending)"
proof (intro conjI impI)
  let ?w = "w\<lparr>redis := (redis w)(providerKey txid := Inr None)\<rparr>"
  assume "redis w (providerKey txid) = Inr (Some d) \<and> d \<noteq> [] \<and> JSON_parse P d = Some v \<and>
    \<not> truthy v"
  then have "parsed P (redis w) (providerKey txid) = Inr (Some v)" and "\<not> truthy v"
    by (simp_all add: parsed_hit)
  from lookup_falsy_provider [where c = "parsed P (redis w)" and txid = txid and v = v
      and site = site and P = P, OF this]
  show "fst (check_transaction P u site txid h1 h2 ?w) =
        fst (check_transaction P u site txid h1 h2 w)"
    and "gets (snd (check_transaction P u site txid h1 h2 ?w)) =
        gets (snd (check_transaction P u site txid h1 h2 w))"
    and "\<exists>n. 2 \<le> n \<and> n \<le> 4 \<and>
         gets (snd (check_transaction P u site txid h1 h2 w)) =
           gets w @ take n (candidates site txid)"
    using check_transaction_lookup [of P u site txid h1 h2 w]
      check_transaction_lookup [of P u site txid h1 h2 ?w]
    by (simp_all add: parsed_update_none)
next
  assume a: "fst (resolve P dk cid site txid w) = Inr t \<and> \<not> truthy t"
  obtain r w1 where r: "resolve P dk cid site txid w = (r, w1)"
    by (cases "resolve P dk cid site txid w")
  with a show "attempt P dk cid site txid w =
        (Inr pending,
         console_log (Tagged dk cid (NotFound txid)) (snd (resolve P dk cid site txid w)))"
    by (simp add: attempt_def pending_def c_json_def stringify_envelope)
  from a show "fst (check_transaction P u site txid h1 h2 w) = pending"
    using resolve_lookup [of P dk cid site txid w]
      check_transaction_lookup [of P u site txid h1 h2 w]
    by (simp add: reply_pending)
qed

theorem falsy_provider_value_is_a_miss_witness:
  \<open>fst (check_transaction sample_runtime ''u'' ''shop'' ''t1'' None None
     (holding [(''kob:ttf:compay:t1'', ''null''),
        (''kob:transaction:deposit:shop:t1'', ''{"status":"SUCCESS","amount":100}'')])) =
     (200, envelope ''success'' (JNum 100)) \<and>
   gets (snd (check_transaction sample_runtime ''u'' ''shop'' ''t1'' None None
     (holding [(''kob:ttf:compay:t1'', ''null''),
        (''kob:transaction:deposit:shop:t1'', ''{"status":"SUCCESS","amount":100}'')]))) =
     [''kob:ttf:compay:t1'', ''kob:transaction:deposit:shop:t1''] \<and>
   fst (attempt sample_runtime ''N/A'' ''u'' ''shop'' ''t1''
     (holding [(''kob:ttf:compay:t1'', ''null'')])) = Inr pending \<and>
   fst (check_transaction sample_runtime ''u'' ''shop'' ''t1'' None None
     (holding [(''kob:ttf:compay:t1'', ''null'')])) = pending\<close>
proof -
  let ?w1 = \<open>holding [(''kob:ttf:compay:t1'', ''null''),
        (''kob:transaction:deposit:shop:t1'', ''{"status":"SUCCESS","amount":100}'')]\<close>
  let ?w2 = "holding [(''kob:ttf:compay:t1'', ''null'')]"
  have h1: "redis ?w1 (providerKey ''t1'') = Inr (Some ''null'') \<and> ''null'' \<noteq> [] \<and>
      JSON_parse sample_runtime ''null'' = Some JNull \<and> \<not> truthy JNull"
    by (simp add: holding_def providerKey_def sample_runtime_def)
  have r1: "fst (check_transaction sample_runtime ''u'' ''shop'' ''t1'' None None
      (?w1\<lparr>redis := (redis ?w1)(providerKey ''t1'' := Inr None)\<rparr>)) =
      (200, envelope ''success'' (JNum 100))"
    and g1: "gets (snd (check_transaction sample_runtime ''u'' ''shop'' ''t1'' None None
      (?w1\<lparr>redis := (redis ?w1)(providerKey ''t1'' := Inr None)\<rparr>))) =
      [''kob:ttf:compay:t1'', ''kob:transaction:deposit:shop:t1'']"
    by (simp_all add: run_defs sample_defs)
  have h2: "fst (resolve sample_runtime ''N/A'' ''u'' ''shop'' ''t1'' ?w2) = Inr JNull \<and>
      \<not> truthy JNull"
    by (simp add: run_defs sample_defs)
  note t1 = falsy_provider_value_is_a_miss [of ?w1 "''t1''" "''null''" sample_runtime JNull
      "''u''" "''shop''" None None "''N/A''" "''u''" JNull]
  note t2 = falsy_provider_value_is_a_miss [of ?w2 "''t1''" "''null''" sample_runtime JNull
      "''u''" "''shop''" None None "''N/A''" "''u''" JNull]
  from t1 h1 r1 have a: "fst (check_transaction sample_runtime ''u'' ''shop'' ''t1'' None None ?w1) =
      (200, envelope ''success'' (JNum 100))"
    by simp
  from t1 h1 g1 have b: "gets (snd (check_transaction sample_runtime ''u'' ''shop'' ''t1'' None None ?w1)) =
      [''kob:ttf:compay:t1'', ''kob:transaction:deposit:shop:t1'']"
    by simp
  from t2 h2 have c: "fst (attempt sample_runtime ''N/A'' ''u'' ''shop'' ''t1'' ?w2) = Inr pending"
    and d: "fst (check_transaction sample_runtime ''u'' ''shop'' ''t1'' None None ?w2) = pending"
    by simp_all
  from a b c d show ?thesis
    by (simp only: simp_thms)
qed

text \<open>
  Claim C9 as stated fails at a legacy key: the loop is left as soon as a value parses,
  truthy or not. Here the deposit key holds the text \<^verbatim>\<open>null\<close> and the withdraw key
  a record; the withdraw key is never read and the answer is the pending envelope,
  while without the deposit entry the record is found.
\<close>

theorem falsy_legacy_value_counterexample:
  \<open>gets (snd (check_transaction sample_runtime ''u'' ''shop'' ''t1'' None None
     (holding [(''kob:transaction:deposit:shop:t1'', ''null''),
        (''kob:transaction:withdraw:shop:t1'', ''{"status":"SUCCESS","amount":100}'')]))) =
     [''kob:ttf:compay:t1'', ''kob:transaction:deposit:shop:t1''] \<and>
   fst (check_transaction sample_runtime ''u'' ''shop'' ''t1'' None None
     (holding [(''kob:transaction:deposit:shop:t1'', ''null''),
        (''kob:transaction:withdraw:shop:t1'', ''{"status":"SUCCESS","amount":100}'')])) =
     pending \<and>
   usable sample_runtime
     (redis (holding [(''kob:transaction:deposit:shop:t1'', ''null''),
        (''kob:transaction:withdraw:shop:t1'', ''{"status":"SUCCESS","amount":100}'')]))
     ''kob:transaction:withdraw:shop:t1'' \<and>
   fst (check_transaction sample_runtime ''u'' ''shop'' ''t1'' None None
     (holding [(''kob:transaction:withdraw:shop:t1'', ''{"status":"SUCCESS","amount":100}'')])) =
     (200, envelope ''success'' (JNum 100))\<close>
  by (simp add: run_defs sample_defs usable_def)

text \<open>
  The loop of lines 222 to 236 ends at the first legacy key whose value parses,
  whatever the parsed value is: that value is the result and no further key is read.
\<close>

theorem legacy_parse_ends_loop:
  "redis w (legacyKey type site txid) = Inr (Some d) \<and> d \<noteq> [] \<and>
   JSON_parse P d = Some v \<longrightarrow>
     fst (legacy P dk cid site txid (type # types) t w) = Inr v \<and>
     gets (snd (legacy P dk cid site txid (type # types) t w)) =
       gets w @ [legacyKey type site txid]"
  using legacy_probe [of P dk cid site txid "type # types" t w]
  by (auto simp add: parsed_hit)

theorem legacy_parse_ends_loop_witness:
  \<open>fst (legacy sample_runtime ''N/A'' ''u'' ''shop'' ''t1'' [''deposit'', ''withdraw'', ''settlement'']
     JNull
     (holding [(''kob:transaction:deposit:shop:t1'', ''null''),
        (''kob:transaction:withdraw:shop:t1'', ''{"status":"SUCCESS","amount":100}'')])) =
     Inr JNull \<and>
   gets (snd (legacy sample_runtime ''N/A'' ''u'' ''shop'' ''t1''
     [''deposit'', ''withdraw'', ''settlement''] JNull
     (holding [(''kob:transaction:deposit:shop:t1'', ''null''),
        (''kob:transaction:withdraw:shop:t1'', ''{"status":"SUCCESS","amount":100}'')]))) =
     [''kob:transaction:deposit:shop:t1'']\<close>
  using legacy_parse_ends_loop [of
      \<open>holding [(''kob:transaction:deposit:shop:t1'', ''null''),
        (''kob:transaction:withdraw:shop:t1'', ''{"status":"SUCCESS","amount":100}'')]\<close>
      "''deposit''" "''shop''" "''t1''" "''null''" sample_runtime JNull "''N/A''" "''u''"
      "[''withdraw'', ''settlement'']" JNull]
  by (simp add: holding_def legacyKey_def KEY_PREFIX_def sample_runtime_def)

section \<open>The route\<close>

text \<open>
  While the shutdown flag is not set, the application answers a request to
  \<^verbatim>\<open>POST /api/payment/v2/:site/:id\<close> that the \<^verbatim>\<open>cors\<close> middleware passes on
  exactly as the handler does: the shutdown middleware passes it on too.
\<close>

theorem app_runs_handler:
  "\<not> isShuttingDown w \<and> cors rq = None \<and> target rq = Payment site txid \<longrightarrow>
     app P cors rest u ts rq w =
       sent (check_transaction P u site txid (x_debug_key rq) (x_correlation_id rq) w)"
  by (simp add: app_def shutdown_middleware_def)

theorem app_runs_handler_witness:
  "\<not> isShuttingDown (holding []) \<and>
   hono_cors \<lparr>http_method = ''POST'', target = Payment ''shop'' ''t1'', x_debug_key = None,
      x_correlation_id = None\<rparr> = None \<and>
   fst (app sample_runtime hono_cors (\<lambda>rq w. ((404, None), w)) ''u''
          ''2026-01-02T12:00:00.000Z''
          \<lparr>http_method = ''POST'', target = Payment ''shop'' ''t1'', x_debug_key = None,
             x_correlation_id = None\<rparr>
          (holding [])) =
     (200, Some (JObj [(''status'', JBool True), (''message'', JStr []),
                       (''data'', JObj [(''status'', JStr ''pending''),
                                        (''amount'', JNum 0)])]))"
proof -
  let ?rq = "\<lparr>http_method = ''POST'', target = Payment ''shop'' ''t1'', x_debug_key = None,
      x_correlation_id = None\<rparr>"
  have a: "\<not> isShuttingDown (holding [])"
    by (simp add: holding_def)
  have c: "hono_cors ?rq = None"
    by (simp add: hono_cors_def)
  have b: "fst (check_transaction sample_runtime ''u'' ''shop'' ''t1'' None None (holding [])) =
      (200, JObj [(''status'', JBool True), (''message'', JStr []),
                  (''data'', JObj [(''status'', JStr ''pending''), (''amount'', JNum 0)])])"
    by (simp add: run_defs sample_defs)
  from a b c show ?thesis
    using app_runs_handler [of "holding []" hono_cors ?rq "''shop''" "''t1''" sample_runtime
        "\<lambda>rq w. ((404, None), w)" "''u''" "''2026-01-02T12:00:00.000Z''"]
    by (simp add: sent_def case_prod_unfold)
qed

end
